theory Spec2Isabelle
  imports Main "HOL-Library.Char_ord" "HOL-Library.List_Lexorder"
begin

chapter \<open>YTMusicLabBot: a shallow embedding of the session and download workflow\<close>

text \<open>
  The development follows the Python sources \<^verbatim>\<open>main.py\<close>, \<^verbatim>\<open>database.py\<close> and
  \<^verbatim>\<open>youtube_service.py\<close>. Part I gives the definitions, in the order of the call graph
  (Python helpers, the SQLite tables, the search wrapper, the bot handlers); Part II proves
  the properties.

  Conventions of the embedding.
  \<^item> A Python \<^verbatim>\<open>str\<close> is a \<^typ>\<open>string\<close>; one \<^typ>\<open>char\<close> stands for one code point, and
    \<^verbatim>\<open>lower()\<close> is modelled on the ASCII letters.
  \<^item> A raised exception is the left injection of a sum; \<^verbatim>\<open>except Exception\<close> is a case
    distinction on it.
  \<^item> Every call that leaves the process (Telegram, yt-dlp, the file system, SQLite inside a
    handler) takes its outcome from an environment record, one field per call site, so that a
    theorem quantified over the environment covers every pattern of collaborator failures.
  \<^item> Texts shown to the user are kept as one constructor per template of the source, carrying
    the interpolated values; the emoji and Markdown decoration of a template is not spelled out.
  \<^item> Of the log lines, those an exception handler of \<^verbatim>\<open>main.py\<close> writes are kept as
    events; the informational lines of \<^verbatim>\<open>search_videos\<close> are left out.
\<close>

section \<open>Part I: definitions\<close>

subsection \<open>Python values and exceptions\<close>

datatype error =
    KeyError string
  | IndexError
  | TypeError string
  | AttributeError string
  | Exception string

text \<open>
  \<^verbatim>\<open>repr\<close> of a \<^verbatim>\<open>str\<close> whose code points are below 256. The quote is the double quote when
  the text holds a single quote and no double quote, and the single quote otherwise; the
  quote and the backslash are escaped by a backslash; tab, line feed and carriage return are
  written as a backslash and the letter \<^verbatim>\<open>t\<close>, \<^verbatim>\<open>n\<close> or \<^verbatim>\<open>r\<close>; the other code points that
  are not printable (the control characters, the no-break space and the soft hyphen) are
  written as a backslash, \<^verbatim>\<open>x\<close> and two hexadecimal digits.
\<close>

definition hex_digit :: "nat \<Rightarrow> char" where
  "hex_digit n = ''0123456789abcdef'' ! n"

definition repr_char :: "char \<Rightarrow> char \<Rightarrow> string" where
  "repr_char quote c =
     (let n = (of_char c :: nat) in
      if c = quote \<or> c = CHR 0x5C then [CHR 0x5C, c]
      else if c = CHR 0x09 then [CHR 0x5C, CHR ''t'']
      else if c = CHR 0x0A then [CHR 0x5C, CHR ''n'']
      else if c = CHR 0x0D then [CHR 0x5C, CHR ''r'']
      else if n < 32 \<or> n = 127 \<or> (128 \<le> n \<and> n \<le> 160) \<or> n = 173
      then [CHR 0x5C, CHR ''x'', hex_digit (n div 16), hex_digit (n mod 16)]
      else [c])"

definition py_repr :: "string \<Rightarrow> string" where
  "py_repr s =
     (let quote = (if CHR 0x27 \<in> set s \<and> CHR 0x22 \<notin> set s then CHR 0x22 else CHR 0x27)
      in [quote] @ concat (map (repr_char quote) s) @ [quote])"

text \<open>\<^verbatim>\<open>str(e)\<close>: a \<^verbatim>\<open>KeyError\<close> prints the repr of its key, the others their message.\<close>

fun error_str :: "error \<Rightarrow> string" where
  "error_str (KeyError k) = py_repr k"
| "error_str IndexError = ''list index out of range''"
| "error_str (TypeError m) = m"
| "error_str (AttributeError m) = m"
| "error_str (Exception m) = m"

text \<open>The outcome of a call that returns nothing: \<open>None\<close> when it succeeds, the exception
  when it raises.\<close>

type_synonym fault = "error option"

text \<open>\<^verbatim>\<open>xs[i]\<close> on a list: a negative index counts from the end, anything outside
  \<^verbatim>\<open>-len(xs) <= i < len(xs)\<close> raises \<^verbatim>\<open>IndexError\<close>.\<close>

definition py_index :: "'a list \<Rightarrow> int \<Rightarrow> error + 'a" where
  "py_index xs i =
     (if 0 \<le> i \<and> i < int (length xs) then Inr (xs ! nat i)
      else if i < 0 \<and> - int (length xs) \<le> i then Inr (xs ! nat (int (length xs) + i))
      else Inl IndexError)"

text \<open>\<^verbatim>\<open>needle in haystack\<close> on strings.\<close>

fun py_in :: "string \<Rightarrow> string \<Rightarrow> bool" where
  "py_in needle [] = (needle = [])"
| "py_in needle (c # cs) = (take (length needle) (c # cs) = needle \<or> py_in needle cs)"

definition lower_char :: "char \<Rightarrow> char" where
  "lower_char c =
     (case map_of (zip ''ABCDEFGHIJKLMNOPQRSTUVWXYZ'' ''abcdefghijklmnopqrstuvwxyz'') c of
        Some d \<Rightarrow> d
      | None \<Rightarrow> c)"

definition lower :: "string \<Rightarrow> string" where
  "lower s = map lower_char s"

text \<open>\<^verbatim>\<open>text.replace(char, new)\<close> for a one-character pattern.\<close>

definition replace_char :: "char \<Rightarrow> string \<Rightarrow> string \<Rightarrow> string" where
  "replace_char c new s = concat (map (\<lambda>x. if x = c then new else [x]) s)"

text \<open>\<^verbatim>\<open>str(n)\<close> for an integer, as an f-string interpolates it.\<close>

fun digits :: "nat \<Rightarrow> string" where
  "digits n =
     (if n < 10 then [''0123456789'' ! n]
      else digits (n div 10) @ [''0123456789'' ! (n mod 10)])"

declare digits.simps [simp del]

definition str_int :: "int \<Rightarrow> string" where
  "str_int i = (if i < 0 then CHR ''-'' # digits (nat (- i)) else digits (nat i))"

text \<open>
  \<^verbatim>\<open>datetime.now().isoformat()\<close>: the reading of the clock is a naive \<^verbatim>\<open>datetime\<close>,
  printed as \<^verbatim>\<open>YYYY-MM-DDTHH:MM:SS\<close>, and followed by a point and the six digits of the
  microseconds when these are not zero.
\<close>

record datetime =
  dt_year :: nat
  dt_month :: nat
  dt_day :: nat
  dt_hour :: nat
  dt_minute :: nat
  dt_second :: nat
  dt_microsecond :: nat

definition zero_pad :: "nat \<Rightarrow> nat \<Rightarrow> string" where
  "zero_pad width n = replicate (width - length (digits n)) (CHR ''0'') @ digits n"

definition isoformat :: "datetime \<Rightarrow> string" where
  "isoformat t =
     zero_pad 4 (dt_year t) @ ''-'' @ zero_pad 2 (dt_month t) @ ''-'' @ zero_pad 2 (dt_day t)
     @ ''T'' @ zero_pad 2 (dt_hour t) @ '':'' @ zero_pad 2 (dt_minute t)
     @ '':'' @ zero_pad 2 (dt_second t)
     @ (if dt_microsecond t = 0 then [] else ''.'' @ zero_pad 6 (dt_microsecond t))"

text \<open>\<^verbatim>\<open>' '.join(args)\<close>.\<close>

fun join_space :: "string list \<Rightarrow> string" where
  "join_space [] = []"
| "join_space [a] = a"
| "join_space (a # b # rest) = a @ '' '' @ join_space (b # rest)"

subsection \<open>The database (\<^verbatim>\<open>database.py\<close>)\<close>

text \<open>
  Each table is the list of its rows in rowid order; the autoincrement ids are not kept, since
  no query of the bot returns them. \<^verbatim>\<open>bot_settings\<close> has its key as primary key and is a
  map. Timestamps are the ISO strings SQLite stores; the clock reading of a statement is a
  parameter.

  The column \<^verbatim>\<open>created_at\<close> of \<^verbatim>\<open>promos\<close> is declared \<^verbatim>\<open>TIMESTAMP\<close>, which gives it
  NUMERIC affinity: a text that reads as an integer or real literal is stored, compared and
  returned as a number, and every other text as it is. The rows of the model hold the texts.
  No numeric literal has a colon, and every string of \<^const>\<open>isoformat\<close>, the only value
  \<^verbatim>\<open>main.py\<close> ever inserts, has one; \<open>kept_as_text\<close> is this test, and
  \<open>text_timestamps\<close> says that every row of \<^verbatim>\<open>promos\<close> passes it. \<open>add_promo\<close> and
  \<open>get_current_promo\<close> below are \<^verbatim>\<open>database.py\<close> on such values; the theorems about them
  are stated for such values and say nothing about a \<^verbatim>\<open>created_at\<close> that SQLite would
  turn into a number.
\<close>

record user_row =
  u_user_id :: int
  u_username :: "string option"
  u_first_name :: "string option"
  u_last_name :: "string option"
  u_joined_at :: string
  u_last_active :: string
  u_is_active :: int

record download_row =
  dl_user_id :: int
  dl_song_title :: string
  dl_format :: string
  dl_effect :: "string option"
  dl_downloaded_at :: string

record promo_row =
  file_id :: string
  caption :: string
  created_at :: string

record database =
  users :: "user_row list"
  downloads :: "download_row list"
  bot_settings :: "string \<rightharpoonup> string"
  promos :: "promo_row list"

definition update_user_activity :: "database \<Rightarrow> int \<Rightarrow> string \<Rightarrow> database" where
  "update_user_activity d user_id now =
     d\<lparr>users := map (\<lambda>u. if u_user_id u = user_id then u\<lparr>u_last_active := now\<rparr> else u) (users d)\<rparr>"

text \<open>\<^verbatim>\<open>effect\<close> defaults to \<^verbatim>\<open>None\<close>; \<^verbatim>\<open>downloaded_at\<close> is the column default
  \<^verbatim>\<open>CURRENT_TIMESTAMP\<close>.\<close>

definition add_download :: "database \<Rightarrow> int \<Rightarrow> string \<Rightarrow> string \<Rightarrow> string option \<Rightarrow> string \<Rightarrow> database" where
  "add_download d user_id song_title fmt effect now =
     d\<lparr>downloads := downloads d @
        [\<lparr>dl_user_id = user_id, dl_song_title = song_title, dl_format = fmt,
          dl_effect = effect, dl_downloaded_at = now\<rparr>]\<rparr>"

text \<open>\<^verbatim>\<open>SELECT COUNT(*) FROM users\<close> and \<^verbatim>\<open>SELECT COUNT(*) FROM users WHERE is_active = 1\<close>,
  on one connection with no statement in between.\<close>

definition get_user_count :: "database \<Rightarrow> nat \<times> nat" where
  "get_user_count d =
     (let total_users = length (users d);
          active_users = length (filter (\<lambda>u. u_is_active u = 1) (users d))
      in (total_users, active_users))"

definition set_setting :: "database \<Rightarrow> string \<Rightarrow> string \<Rightarrow> database" where
  "set_setting d k v = d\<lparr>bot_settings := (bot_settings d)(k \<mapsto> v)\<rparr>"

definition get_setting :: "database \<Rightarrow> string \<Rightarrow> string option" where
  "get_setting d k = bot_settings d k"

definition delete_bot_setting :: "database \<Rightarrow> string \<Rightarrow> database" where
  "delete_bot_setting d k = d\<lparr>bot_settings := (bot_settings d)(k := None)\<rparr>"

definition kept_as_text :: "string \<Rightarrow> bool" where
  "kept_as_text s = (CHR '':'' \<in> set s)"

definition text_timestamps :: "database \<Rightarrow> bool" where
  "text_timestamps d = list_all (\<lambda>p. kept_as_text (created_at p)) (promos d)"

text \<open>The insert of \<^verbatim>\<open>add_promo\<close>, for a \<^verbatim>\<open>created_at\<close> that is kept as text.\<close>

definition add_promo :: "database \<Rightarrow> promo_row \<Rightarrow> database" where
  "add_promo d promo_data = d\<lparr>promos := promos d @ [promo_data]\<rparr>"

text \<open>Returns the number of rows it deleted, and the emptied table.\<close>

definition delete_all_promos :: "database \<Rightarrow> nat \<times> database" where
  "delete_all_promos d = (length (promos d), d\<lparr>promos := []\<rparr>)"

text \<open>
  \<^verbatim>\<open>SELECT ... FROM promos ORDER BY created_at DESC LIMIT 1\<close>, for a table whose
  \<^verbatim>\<open>created_at\<close> values are kept as text. The strings compare lexicographically, as SQLite
  compares TEXT. SQL leaves the choice among rows with the same \<^verbatim>\<open>created_at\<close> open; the
  model takes the first of them in rowid order.
\<close>

definition get_current_promo :: "database \<Rightarrow> promo_row option" where
  "get_current_promo d =
     (case promos d of
        [] \<Rightarrow> None
      | r # rs \<Rightarrow> Some (fold (\<lambda>x best. if created_at best < created_at x then x else best) rs r))"

subsection \<open>The search wrapper (\<^verbatim>\<open>youtube_service.py\<close>)\<close>

text \<open>A search result, the dictionary built at lines 87-93 of \<^verbatim>\<open>youtube_service.py\<close>.
  The channel is whatever yt-dlp reported as uploader, which may be \<^verbatim>\<open>None\<close>.\<close>

record video =
  vid :: string
  title :: string
  channel :: "string option"
  url :: string
  thumbnail :: string

text \<open>
  What yt-dlp returns: an info dictionary has metadata keys whose values are strings or
  \<^verbatim>\<open>None\<close> (kept as an association list, \<open>None\<close> being Python's \<^verbatim>\<open>None\<close>), and may have
  the key \<^verbatim>\<open>entries\<close>, whose value is \<^verbatim>\<open>None\<close> or a list of info dictionaries and
  \<^verbatim>\<open>None\<close>s (an entry that failed under \<^verbatim>\<open>ignoreerrors\<close>). In \<open>entries_key\<close> the outer
  option says whether the key is present.
\<close>

datatype info_dict =
  InfoDict (scalars: "(string \<times> string option) list")
           (entries_key: "info_dict option list option option")

text \<open>A dictionary is truthy when it has a key.\<close>

definition dict_truthy :: "info_dict \<Rightarrow> bool" where
  "dict_truthy d = (scalars d \<noteq> [] \<or> entries_key d \<noteq> None)"

text \<open>\<^verbatim>\<open>d.get(key, default)\<close> on a metadata key.\<close>

definition dict_get :: "info_dict \<Rightarrow> string \<Rightarrow> string option \<Rightarrow> string option" where
  "dict_get d k dflt = (case map_of (scalars d) k of None \<Rightarrow> dflt | Some v \<Rightarrow> v)"

text \<open>What \<^verbatim>\<open>extract_info\<close> returned: \<^verbatim>\<open>None\<close>, a dictionary, or an object of
  another type with the given truth value.\<close>

datatype ydl_result = ResultNone | ResultDict info_dict | ResultOther bool

text \<open>The yt-dlp session of one search: constructing and entering \<^verbatim>\<open>YoutubeDL\<close>,
  \<^verbatim>\<open>extract_info\<close> as a function of the URL it is given, and leaving the \<^verbatim>\<open>with\<close>
  block.\<close>

record ydl_env =
  ydl_init :: fault
  ydl_extract :: "string \<Rightarrow> error + ydl_result"
  ydl_exit :: fault

definition search_url :: "int \<Rightarrow> string \<Rightarrow> string" where
  "search_url max_results query = ''ytsearch'' @ str_int max_results @ '':'' @ query"

definition make_video :: "string \<Rightarrow> string \<Rightarrow> string option \<Rightarrow> video" where
  "make_video video_id ttl uploader =
     \<lparr>vid = video_id, title = ttl, channel = uploader,
      url = ''https://www.youtube.com/watch?v='' @ video_id,
      thumbnail = ''https://img.youtube.com/vi/'' @ video_id @ ''/maxresdefault.jpg''\<rparr>"

text \<open>
  Lines 82-95, for one non-empty dictionary entry: \<open>Inr None\<close> when nothing is appended,
  \<open>Inr (Some v)\<close> when \<open>v\<close> is appended, and the \<^verbatim>\<open>TypeError\<close> of \<^verbatim>\<open>title[:50]\<close> in the
  log line when the title is \<^verbatim>\<open>None\<close> (the append before it is lost with the local list).
\<close>

definition entry_video :: "info_dict \<Rightarrow> error + video option" where
  "entry_video entry =
     (let video_id = dict_get entry ''id'' (Some []);
          ttl = dict_get entry ''title'' (Some ''Unknown Title'');
          uploader = dict_get entry ''uploader''
                       (dict_get entry ''channel''
                          (dict_get entry ''uploader_id'' (Some ''Unknown Channel'')))
      in case video_id of
           None \<Rightarrow> Inr None
         | Some i \<Rightarrow>
             if i \<noteq> [] \<and> ttl \<noteq> Some ''Unknown Title'' then
               (case ttl of
                  None \<Rightarrow> Inl (TypeError ([CHR 0x27] @ ''NoneType'' @ [CHR 0x27] @ '' object is not subscriptable''))
                | Some t \<Rightarrow> Inr (Some (make_video i t uploader)))
             else Inr None)"

text \<open>The loop of lines 80-98 over the entries, \<open>videos\<close> being the list built so far. The
  test against \<open>max_results\<close> stands inside the branch of a non-empty dictionary entry, after
  the append.\<close>

fun collect_entries :: "int \<Rightarrow> info_dict option list \<Rightarrow> video list \<Rightarrow> error + video list" where
  "collect_entries max_results [] videos = Inr videos"
| "collect_entries max_results (entry # rest) videos =
     (case entry of
        None \<Rightarrow> collect_entries max_results rest videos
      | Some e \<Rightarrow>
          if \<not> dict_truthy e then collect_entries max_results rest videos
          else
            (case entry_video e of
               Inl err \<Rightarrow> Inl err
             | Inr r \<Rightarrow>
                 let videos' = (case r of None \<Rightarrow> videos | Some v \<Rightarrow> videos @ [v])
                 in if max_results \<le> int (length videos') then Inr videos'
                    else collect_entries max_results rest videos'))"

text \<open>Lines 67-103: what is made of the value \<^verbatim>\<open>extract_info\<close> returned. \<^verbatim>\<open>len(entries)\<close>
  raises when the key \<^verbatim>\<open>entries\<close> holds \<^verbatim>\<open>None\<close> and the dictionary has no title.\<close>

definition process_results :: "ydl_result \<Rightarrow> int \<Rightarrow> error + video list" where
  "process_results search_results max_results =
     (case search_results of
        ResultNone \<Rightarrow> Inr []
      | ResultOther truthy \<Rightarrow> Inr []
      | ResultDict d \<Rightarrow>
          if \<not> dict_truthy d then Inr []
          else
            let entries0 = (case entries_key d of None \<Rightarrow> Some [] | Some v \<Rightarrow> v);
                entries = (if (entries0 = None \<or> entries0 = Some []) \<and> ''title'' \<in> set (map fst (scalars d))
                           then Some [Some d] else entries0)
            in (case entries of
                  None \<Rightarrow> Inl (TypeError (''object of type '' @ [CHR 0x27] @ ''NoneType'' @ [CHR 0x27] @ '' has no len()''))
                | Some es \<Rightarrow> collect_entries max_results es []))"

text \<open>The body of the outer \<^verbatim>\<open>try\<close> (lines 39-103). An exception of \<^verbatim>\<open>extract_info\<close> is
  caught by the inner handler, which returns the empty list from inside the \<^verbatim>\<open>with\<close>
  block.\<close>

definition search_videos_try :: "ydl_env \<Rightarrow> string \<Rightarrow> int \<Rightarrow> error + video list" where
  "search_videos_try y query max_results =
     (case ydl_init y of
        Some err \<Rightarrow> Inl err
      | None \<Rightarrow>
          (case ydl_extract y (search_url max_results query) of
             Inl err \<Rightarrow> (case ydl_exit y of Some err' \<Rightarrow> Inl err' | None \<Rightarrow> Inr [])
           | Inr search_results \<Rightarrow>
               (case ydl_exit y of
                  Some err' \<Rightarrow> Inl err'
                | None \<Rightarrow> process_results search_results max_results)))"

definition fallback_video :: video where
  "fallback_video =
     \<lparr>vid = ''kJQP7kiw5Fk'', title = ''Luis Fonsi - Despacito ft. Daddy Yankee'',
      channel = Some ''LuisFonsiVEVO'',
      url = ''https://www.youtube.com/watch?v=kJQP7kiw5Fk'',
      thumbnail = ''https://img.youtube.com/vi/kJQP7kiw5Fk/maxresdefault.jpg''\<rparr>"

text \<open>\<^verbatim>\<open>search_videos\<close> with its outer handler (lines 105-121). The result is kept as a sum
  although no branch raises: that it never does is a theorem below, not a convention.\<close>

definition search_videos :: "ydl_env \<Rightarrow> string \<Rightarrow> int \<Rightarrow> error + video list" where
  "search_videos y query max_results =
     (case search_videos_try y query max_results of
        Inr videos \<Rightarrow> Inr videos
      | Inl err \<Rightarrow>
          if py_in ''test'' (lower query) \<or> py_in ''despacito'' (lower query)
          then Inr [fallback_video]
          else Inr [])"

subsection \<open>The bot: state, effects and exceptions (\<^verbatim>\<open>main.py\<close>)\<close>

datatype fmt = Mp3 | Mp4

text \<open>Inline buttons, one constructor per template of the source: the label's title, the
  video id and the index of \<^verbatim>\<open>download_mp3:{id}:{i}\<close> and \<^verbatim>\<open>download_mp4:{id}:{i}\<close>, the
  query of \<^verbatim>\<open>get_lyrics:{query}\<close>, the video id of \<^verbatim>\<open>url_download_mp3:{id}\<close> and
  \<^verbatim>\<open>url_download_mp4:{id}\<close>.\<close>

datatype button =
    Mp3Button string string nat
  | Mp4Button string string nat
  | GetLyricsButton string
  | SearchAgainButton
  | BackToLyricsButton string
  | UrlMp3Button string
  | UrlMp4Button string
  | CancelButton

type_synonym keyboard = "button list list"

datatype message =
    MsgSearching string
  | MsgNoResults
  | MsgSearchResults string keyboard
  | MsgYoutubeSearching string
  | MsgNoYoutubeResults
  | MsgYoutubeResults string keyboard
  | MsgYoutubeSearchError string
  | MsgSessionExpired
  | MsgInvalidSelection
  | MsgProcessing fmt string
  | MsgUploading fmt
  | MsgDownloadComplete fmt
  | MsgDownloadFailed string
  | MsgSeparator
  | MsgUrlProcessing
  | MsgUrlNoInfo
  | MsgUrlConfirm string string "int option" keyboard
  | MsgUrlError string
  | MsgAdminOnly
  | MsgAdminPanel bool
  | MsgReplyToPhoto
  | MsgAddCaption
  | MsgPromoAdded string bool

text \<open>The caption of a delivered file: format, escaped title, escaped channel and the size
  in bytes from which the megabytes are printed.\<close>

datatype media_caption = MediaCaption fmt string string nat

text \<open>What a handler does to the outside, in the order in which it happened. A call that
  raised leaves no event. \<open>Fetch\<close> is the call of \<^verbatim>\<open>download_audio\<close> or
  \<^verbatim>\<open>download_video\<close> with the URL, \<open>AutoDelete\<close> the scheduling of
  \<^verbatim>\<open>auto_delete_message\<close> with its delay.\<close>

datatype event =
    Reply message
  | Edit message
  | SendMessage int message
  | SendAudio int string media_caption string string
  | SendVideo int string media_caption
  | SendPhoto int string string
  | Fetch fmt string
  | RemoveFile string
  | AutoDelete nat
  | LogError string

text \<open>A session entry is one of the two dictionaries the bot writes: the one of
  \<^verbatim>\<open>handle_search\<close> and \<^verbatim>\<open>handle_lyrics_to_download\<close> (keys \<^verbatim>\<open>search_results\<close>,
  \<^verbatim>\<open>query\<close>) and the one of \<^verbatim>\<open>handle_youtube_url\<close> (keys \<^verbatim>\<open>url_video\<close>,
  \<^verbatim>\<open>original_url\<close>).\<close>

datatype session =
    SearchSession "video list" string
  | UrlSession video string

record world =
  user_sessions :: "int \<rightharpoonup> session"
  db :: database
  trace :: "event list"

text \<open>A handler is a function of the state that returns normally or raises, and the state it
  leaves; what was done before an exception stays done.\<close>

type_synonym 'a io = "world \<Rightarrow> (error + 'a) \<times> world"

definition io_return :: "'a \<Rightarrow> 'a io" where
  "io_return x w = (Inr x, w)"

definition io_raise :: "error \<Rightarrow> 'a io" where
  "io_raise err w = (Inl err, w)"

definition io_lift :: "error + 'a \<Rightarrow> 'a io" where
  "io_lift r w = (r, w)"

definition io_bind :: "'a io \<Rightarrow> ('a \<Rightarrow> 'b io) \<Rightarrow> 'b io" where
  "io_bind m f w = (case m w of (Inl err, w') \<Rightarrow> (Inl err, w') | (Inr x, w') \<Rightarrow> f x w')"

definition io_then :: "unit io \<Rightarrow> 'b io \<Rightarrow> 'b io" where
  "io_then m n = io_bind m (\<lambda>_. n)"

fun io_seq :: "unit io list \<Rightarrow> unit io" where
  "io_seq [] = io_return ()"
| "io_seq (m # ms) = io_then m (io_seq ms)"

text \<open>\<^verbatim>\<open>try: m  except Exception as e: handler(e)\<close>.\<close>

definition io_try :: "'a io \<Rightarrow> (error \<Rightarrow> 'a io) \<Rightarrow> 'a io" where
  "io_try m handler w = (case m w of (Inl err, w') \<Rightarrow> handler err w' | (Inr x, w') \<Rightarrow> (Inr x, w'))"

definition emit :: "event \<Rightarrow> unit io" where
  "emit ev w = (Inr (), w\<lparr>trace := trace w @ [ev]\<rparr>)"

text \<open>A call to a collaborator: it raises, or it happens.\<close>

definition call :: "fault \<Rightarrow> event \<Rightarrow> unit io" where
  "call flt ev = (case flt of Some err \<Rightarrow> io_raise err | None \<Rightarrow> emit ev)"

text \<open>A statement on the database from inside a handler.\<close>

definition db_call :: "fault \<Rightarrow> (database \<Rightarrow> database) \<Rightarrow> unit io" where
  "db_call flt f w = (case flt of Some err \<Rightarrow> (Inl err, w) | None \<Rightarrow> (Inr (), w\<lparr>db := f (db w)\<rparr>))"

text \<open>\<^verbatim>\<open>self.user_sessions[user_id] = {...}\<close>.\<close>

definition store_session :: "int \<Rightarrow> session \<Rightarrow> unit io" where
  "store_session user_id s w = (Inr (), w\<lparr>user_sessions := (user_sessions w)(user_id \<mapsto> s)\<rparr>)"

definition escape_chars :: string where
  "escape_chars = ''*_[]()~'' @ [CHR 0x60] @ ''>#+-=|{}.!''"

definition escape_markdown :: "string \<Rightarrow> string" where
  "escape_markdown text = fold (\<lambda>ch t. replace_char ch [CHR 0x5C, ch] t) escape_chars text"

subsection \<open>Searching (\<^verbatim>\<open>handle_search\<close>, \<^verbatim>\<open>handle_lyrics_to_download\<close>)\<close>

text \<open>The button text of a result: the title cut to 50 characters with an ellipsis, without
  the characters \<^verbatim>\<open>* _ [ ]\<close>.\<close>

definition clean_title :: "string \<Rightarrow> string" where
  "clean_title t =
     (let ttl = (if 50 < length t then take 50 t @ ''...'' else t)
      in replace_char (CHR '']'') [] (replace_char (CHR ''['') []
           (replace_char (CHR ''_'') [] (replace_char (CHR ''*'') [] ttl))))"

definition search_keyboard :: "video list \<Rightarrow> string \<Rightarrow> keyboard" where
  "search_keyboard videos query =
     concat (map (\<lambda>(i, video).
                    [[Mp3Button (clean_title (title video)) (vid video) i],
                     [Mp4Button (clean_title (title video)) (vid video) i]])
                 (enumerate 0 videos))
     @ [[GetLyricsButton query], [SearchAgainButton]]"

text \<open>The collaborators of one run of \<^verbatim>\<open>handle_search\<close>: the clock, the update of the
  user's activity, the "searching" reply, yt-dlp, and the edit that shows the outcome.\<close>

record search_env =
  se_now :: string
  se_activity :: fault
  se_reply :: fault
  se_ydl :: ydl_env
  se_edit :: fault

definition handle_search :: "search_env \<Rightarrow> int \<Rightarrow> string \<Rightarrow> unit io" where
  "handle_search e user_id query =
     io_then (db_call (se_activity e) (\<lambda>d. update_user_activity d user_id (se_now e)))
    (io_then (call (se_reply e) (Reply (MsgSearching (escape_markdown query))))
    (io_bind (io_lift (search_videos (se_ydl e) query 8))
       (\<lambda>videos.
          if videos = [] then call (se_edit e) (Edit MsgNoResults)
          else
            io_then (store_session user_id (SearchSession videos query))
                    (call (se_edit e)
                       (Edit (MsgSearchResults (escape_markdown query) (search_keyboard videos query)))))))"

definition lyrics_keyboard :: "video list \<Rightarrow> string \<Rightarrow> keyboard" where
  "lyrics_keyboard videos song_info =
     map (\<lambda>(i, video). [Mp3Button (clean_title (title video)) (vid video) i]) (enumerate 0 videos)
     @ [[BackToLyricsButton song_info]]"

record lyrics_env =
  le_edit_searching :: fault
  le_ydl :: ydl_env
  le_edit_result :: fault
  le_edit_error :: fault

definition handle_lyrics_to_download :: "lyrics_env \<Rightarrow> int \<Rightarrow> string \<Rightarrow> unit io" where
  "handle_lyrics_to_download e user_id song_info =
     io_then (call (le_edit_searching e) (Edit (MsgYoutubeSearching (escape_markdown song_info))))
       (io_try
          (io_bind (io_lift (search_videos (le_ydl e) song_info 3))
             (\<lambda>videos.
                if videos = [] then call (le_edit_result e) (Edit MsgNoYoutubeResults)
                else
                  io_then (store_session user_id (SearchSession videos song_info))
                          (call (le_edit_result e)
                             (Edit (MsgYoutubeResults (escape_markdown song_info)
                                      (lyrics_keyboard videos song_info))))))
          (\<lambda>err. io_then (emit (LogError (''YouTube search error: '' @ error_str err)))
                          (call (le_edit_error e) (Edit (MsgYoutubeSearchError (error_str err))))))"

text \<open>\<^verbatim>\<open>self.escape_markdown(video['channel'])\<close>: \<^verbatim>\<open>None\<close> has no \<^verbatim>\<open>replace\<close>.\<close>

definition escape_channel :: "string option \<Rightarrow> error + string" where
  "escape_channel c =
     (case c of
        None \<Rightarrow> Inl (AttributeError ([CHR 0x27] @ ''NoneType'' @ [CHR 0x27] @ '' object has no attribute ''
                                    @ [CHR 0x27] @ ''replace'' @ [CHR 0x27]))
      | Some s \<Rightarrow> Inr (escape_markdown s))"

subsection \<open>A direct link (\<^verbatim>\<open>handle_youtube_url\<close>)\<close>

text \<open>What \<^verbatim>\<open>get_video_info\<close> returns for a link, when it returns a dictionary: title and
  channel are what yt-dlp reported and may be \<^verbatim>\<open>None\<close>, the duration is a number of seconds or
  \<^verbatim>\<open>None\<close>. The function catches its own exceptions and returns \<^verbatim>\<open>None\<close> then.\<close>

record url_info =
  ui_id :: string
  ui_title :: "string option"
  ui_channel :: "string option"
  ui_duration :: "int option"
  ui_thumbnail :: string

record url_env =
  ue_now :: string
  ue_activity :: fault
  ue_reply :: fault
  ue_info :: "string \<Rightarrow> url_info option"
  ue_edit :: fault
  ue_edit_error :: fault

text \<open>
  \<^verbatim>\<open>handle_youtube_url\<close> (lines 306-354). \<^verbatim>\<open>video_info['title'][:80]\<close> raises when the
  title is \<^verbatim>\<open>None\<close>, and so does escaping a channel that is \<^verbatim>\<open>None\<close>; both stand before
  the session is written, inside the \<^verbatim>\<open>try\<close>. The stored entry keeps the fields of the
  dictionary that are read later (the duration is only printed in the confirmation).
\<close>

definition handle_youtube_url :: "url_env \<Rightarrow> int \<Rightarrow> string \<Rightarrow> unit io" where
  "handle_youtube_url e user_id link =
     io_then (db_call (ue_activity e) (\<lambda>d. update_user_activity d user_id (ue_now e)))
    (io_then (call (ue_reply e) (Reply MsgUrlProcessing))
    (io_try
       (case ue_info e link of
          None \<Rightarrow> call (ue_edit e) (Edit MsgUrlNoInfo)
        | Some video_info \<Rightarrow>
            io_bind (io_lift (case ui_title video_info of
                               None \<Rightarrow> Inl (TypeError ([CHR 0x27] @ ''NoneType'' @ [CHR 0x27]
                                                        @ '' object is not subscriptable''))
                             | Some t \<Rightarrow> Inr t)) (\<lambda>ttl.
            io_bind (io_lift (escape_channel (ui_channel video_info))) (\<lambda>safe_channel.
            io_then
              (store_session user_id
                 (UrlSession \<lparr>vid = ui_id video_info, title = ttl, channel = ui_channel video_info,
                               url = link, thumbnail = ui_thumbnail video_info\<rparr> link))
              (call (ue_edit e)
                 (Edit (MsgUrlConfirm (escape_markdown (take 80 ttl)) safe_channel
                          (case ui_duration video_info of
                             None \<Rightarrow> None
                           | Some d \<Rightarrow> if d = 0 then None else Some d)
                          [[UrlMp3Button (ui_id video_info)], [UrlMp4Button (ui_id video_info)],
                           [CancelButton]]))))))
       (\<lambda>err. io_then (emit (LogError (''Error processing YouTube URL: '' @ error_str err)))
                       (call (ue_edit_error e) (Edit (MsgUrlError (error_str err)))))))"

subsection \<open>Downloading (\<^verbatim>\<open>handle_mp3_download\<close>, \<^verbatim>\<open>handle_mp4_download\<close> and what they call)\<close>

text \<open>
  The collaborators of one button press, in the order of their call sites: the edit that
  shows a rejection, the "processing" edit, \<^verbatim>\<open>download_audio\<close> or \<^verbatim>\<open>download_video\<close>
  (which catch their own exceptions and return a path or \<^verbatim>\<open>None\<close>), \<^verbatim>\<open>os.path.getsize\<close>,
  the "uploading" edit, \<^verbatim>\<open>open\<close>, \<^verbatim>\<open>send_audio\<close> or \<^verbatim>\<open>send_video\<close>, the insert of the
  download record and its clock, \<^verbatim>\<open>os.path.exists\<close>, \<^verbatim>\<open>os.remove\<close>, the "complete" edit,
  the promo query, the two promo messages, and the "failed" edit.
\<close>

record download_env =
  de_edit_reject :: fault
  de_edit_processing :: fault
  de_fetch :: "string \<Rightarrow> string option"
  de_getsize :: "error + nat"
  de_edit_uploading :: fault
  de_open :: fault
  de_send :: fault
  de_add_download :: fault
  de_now :: string
  de_exists :: bool
  de_remove :: fault
  de_edit_complete :: fault
  de_promo_fetch :: fault
  de_send_separator :: fault
  de_send_photo :: fault
  de_edit_failed :: fault

text \<open>A call that leaves no event when it succeeds.\<close>

definition check :: "fault \<Rightarrow> unit io" where
  "check flt = (case flt of Some err \<Rightarrow> io_raise err | None \<Rightarrow> io_return ())"

text \<open>\<^verbatim>\<open>send_promotional_content\<close> (lines 750-774): the whole body stands in a
  \<^verbatim>\<open>try\<close> whose handler only logs.\<close>

definition send_promotional_content :: "download_env \<Rightarrow> int \<Rightarrow> unit io" where
  "send_promotional_content e user_id =
     io_try
       (io_bind (\<lambda>w. case de_promo_fetch e of
                        Some err \<Rightarrow> (Inl err, w)
                      | None \<Rightarrow> (Inr (get_current_promo (db w)), w))
          (\<lambda>current_promo.
             case current_promo of
               None \<Rightarrow> io_return ()
             | Some p \<Rightarrow>
                 io_then (call (de_send_separator e) (SendMessage user_id MsgSeparator))
                         (call (de_send_photo e) (SendPhoto user_id (file_id p) (caption p)))))
       (\<lambda>err. emit (LogError (''Promo send error: '' @ error_str err)))"

text \<open>\<^verbatim>\<open>process_mp3_download\<close> (lines 448-502).\<close>

definition process_mp3_download :: "download_env \<Rightarrow> int \<Rightarrow> video \<Rightarrow> string \<Rightarrow> unit io" where
  "process_mp3_download e user_id video video_url =
     io_try
       (io_then (emit (Fetch Mp3 video_url))
          (case de_fetch e video_url of
             None \<Rightarrow> io_raise (Exception ''Failed to download audio'')
           | Some audio_file \<Rightarrow>
               if audio_file = [] then io_raise (Exception ''Failed to download audio'')
               else
                 io_bind (io_lift (de_getsize e)) (\<lambda>file_size.
                 io_bind (io_lift (escape_channel (channel video))) (\<lambda>safe_channel.
                 io_seq
                   [call (de_edit_uploading e) (Edit (MsgUploading Mp3)),
                    check (de_open e),
                    call (de_send e)
                      (SendAudio user_id audio_file
                         (MediaCaption Mp3 (escape_markdown (take 50 (title video))) safe_channel file_size)
                         (title video) (case channel video of Some c \<Rightarrow> c | None \<Rightarrow> [])),
                    db_call (de_add_download e)
                      (\<lambda>d. add_download d user_id (title video) ''mp3'' None (de_now e)),
                    (if de_exists e then call (de_remove e) (RemoveFile audio_file) else io_return ()),
                    call (de_edit_complete e) (Edit (MsgDownloadComplete Mp3)),
                    send_promotional_content e user_id,
                    emit (AutoDelete 30)]))))
       (\<lambda>err. io_raise (Exception (''MP3 processing failed: '' @ error_str err)))"

text \<open>
  \<^verbatim>\<open>process_mp4_download\<close> (lines 545-598). The statement
  \<^verbatim>\<open>with open(video_file, 'rb') as video\<close> rebinds the parameter \<^verbatim>\<open>video\<close> to the file
  object, so \<^verbatim>\<open>video['title']\<close> in the call of \<^verbatim>\<open>add_download\<close> after the block raises
  \<^verbatim>\<open>TypeError\<close>; lines 579-595 are never reached.
\<close>

definition process_mp4_download :: "download_env \<Rightarrow> int \<Rightarrow> video \<Rightarrow> string \<Rightarrow> unit io" where
  "process_mp4_download e user_id video video_url =
     io_try
       (io_then (emit (Fetch Mp4 video_url))
          (case de_fetch e video_url of
             None \<Rightarrow> io_raise (Exception ''Failed to download video'')
           | Some video_file \<Rightarrow>
               if video_file = [] then io_raise (Exception ''Failed to download video'')
               else
                 io_bind (io_lift (de_getsize e)) (\<lambda>file_size.
                 io_bind (io_lift (escape_channel (channel video))) (\<lambda>safe_channel.
                 io_seq
                   [call (de_edit_uploading e) (Edit (MsgUploading Mp4)),
                    check (de_open e),
                    call (de_send e)
                      (SendVideo user_id video_file
                         (MediaCaption Mp4 (escape_markdown (take 50 (title video))) safe_channel file_size)),
                    io_raise (TypeError ([CHR 0x27] @ ''_io.BufferedReader'' @ [CHR 0x27]
                                         @ '' object is not subscriptable''))]))))
       (\<lambda>err. io_raise (Exception (''MP4 processing failed: '' @ error_str err)))"

definition process_download :: "download_env \<Rightarrow> fmt \<Rightarrow> int \<Rightarrow> video \<Rightarrow> string \<Rightarrow> unit io" where
  "process_download e f =
     (case f of Mp3 \<Rightarrow> process_mp3_download e | Mp4 \<Rightarrow> process_mp4_download e)"

text \<open>\<^verbatim>\<open>self.user_sessions[user_id]['search_results']\<close>: the entry written by
  \<^verbatim>\<open>handle_youtube_url\<close> has no such key.\<close>

definition session_search_results :: "session \<Rightarrow> error + video list" where
  "session_search_results s =
     (case s of
        SearchSession videos q \<Rightarrow> Inr videos
      | UrlSession video_info original_url \<Rightarrow> Inl (KeyError ''search_results''))"

text \<open>
  The selection of the candidate, lines 415-424 of \<^verbatim>\<open>handle_mp3_download\<close> and, letter for
  letter, lines 512-521 of \<^verbatim>\<open>handle_mp4_download\<close>: the two rejections the handlers answer
  themselves, the candidate, or the exception that leaves the handler.
\<close>

datatype resolution =
    SessionExpired
  | InvalidSelection
  | Resolved video
  | ResolveError error

definition resolve_candidate :: "(int \<rightharpoonup> session) \<Rightarrow> int \<Rightarrow> int \<Rightarrow> resolution" where
  "resolve_candidate sessions user_id result_index =
     (case sessions user_id of
        None \<Rightarrow> SessionExpired
      | Some s \<Rightarrow>
          (case session_search_results s of
             Inl err \<Rightarrow> ResolveError err
           | Inr videos \<Rightarrow>
               if int (length videos) \<le> result_index then InvalidSelection
               else
                 (case py_index videos result_index of
                    Inl err \<Rightarrow> ResolveError err
                  | Inr video \<Rightarrow> Resolved video)))"

text \<open>
  The two handlers, from the parsed callback data on (\<open>result_index\<close> is the integer of line
  413); they differ in the format named in the messages and in the function that processes
  the download.
\<close>

definition handle_download :: "download_env \<Rightarrow> fmt \<Rightarrow> int \<Rightarrow> int \<Rightarrow> unit io" where
  "handle_download e f user_id result_index w =
     (case resolve_candidate (user_sessions w) user_id result_index of
        SessionExpired \<Rightarrow> call (de_edit_reject e) (Edit MsgSessionExpired) w
      | InvalidSelection \<Rightarrow> call (de_edit_reject e) (Edit MsgInvalidSelection) w
      | ResolveError err \<Rightarrow> io_raise err w
      | Resolved video \<Rightarrow>
          io_then
            (call (de_edit_processing e)
               (Edit (MsgProcessing f (escape_markdown (take 50 (title video))))))
            (io_try (process_download e f user_id video (url video))
               (\<lambda>err. io_then (emit (LogError (''Download error: '' @ error_str err)))
                               (call (de_edit_failed e)
                                  (Edit (MsgDownloadFailed (take 100 (error_str err)))))))
            w)"

definition handle_mp3_download :: "download_env \<Rightarrow> int \<Rightarrow> int \<Rightarrow> unit io" where
  "handle_mp3_download e = handle_download e Mp3"

definition handle_mp4_download :: "download_env \<Rightarrow> int \<Rightarrow> int \<Rightarrow> unit io" where
  "handle_mp4_download e = handle_download e Mp4"

subsection \<open>The access gate\<close>

definition is_admin :: "int list \<Rightarrow> int \<Rightarrow> bool" where
  "is_admin admin_user_ids user_id = (user_id \<in> set admin_user_ids)"

text \<open>\<^verbatim>\<open>check_channel_membership\<close> (lines 785-796). \<open>get_chat_member\<close> is Telegram's answer
  for a channel and a user: the member's status, or an exception.\<close>

definition check_channel_membership ::
  "database \<Rightarrow> (string \<Rightarrow> int \<Rightarrow> error + string) \<Rightarrow> int \<Rightarrow> bool" where
  "check_channel_membership d get_chat_member user_id =
     (case get_setting d ''forced_channel'' of
        None \<Rightarrow> True
      | Some forced_channel \<Rightarrow>
          if forced_channel = [] then True
          else
            (case get_chat_member forced_channel user_id of
               Inr status \<Rightarrow> status \<in> set [''member'', ''administrator'', ''creator'']
             | Inl err \<Rightarrow> True))"

text \<open>The gate at the head of \<^verbatim>\<open>handle_text_message\<close> (lines 360-365), of
  \<^verbatim>\<open>search_command\<close> and of \<^verbatim>\<open>lyrics_command\<close>: \<open>False\<close> is the branch that sends the
  join message and returns.\<close>

definition access_gate ::
  "int list \<Rightarrow> database \<Rightarrow> (string \<Rightarrow> int \<Rightarrow> error + string) \<Rightarrow> int \<Rightarrow> bool" where
  "access_gate admin_user_ids d get_chat_member user_id =
     (if \<not> is_admin admin_user_ids user_id then
        (if \<not> check_channel_membership d get_chat_member user_id then False else True)
      else True)"

subsection \<open>Replacing the promo (\<^verbatim>\<open>addpromo_command\<close>)\<close>

text \<open>The message the command replies to: the file ids of its photo sizes (empty when it is
  no photo) and its caption.\<close>

record replied_message =
  rm_photo :: "string list"
  rm_caption :: "string option"

record promo_env =
  pe_reply :: fault
  pe_now :: datetime
  pe_delete :: fault
  pe_add :: fault

definition addpromo_command ::
  "promo_env \<Rightarrow> int list \<Rightarrow> int \<Rightarrow> int \<Rightarrow> replied_message option \<Rightarrow> string list \<Rightarrow> unit io" where
  "addpromo_command e admin_user_ids primary_admin_id user_id reply_to_message args =
     (if \<not> is_admin admin_user_ids user_id then call (pe_reply e) (Reply MsgAdminOnly)
      else
        (case reply_to_message of
           None \<Rightarrow> call (pe_reply e) (Reply (MsgAdminPanel (user_id = primary_admin_id)))
         | Some replied_msg \<Rightarrow>
             if rm_photo replied_msg = [] then call (pe_reply e) (Reply MsgReplyToPhoto)
             else
               let photo = last (rm_photo replied_msg);
                   cap = (if args \<noteq> [] then join_space args
                          else (case rm_caption replied_msg of None \<Rightarrow> [] | Some c \<Rightarrow> c))
               in if cap = [] then call (pe_reply e) (Reply MsgAddCaption)
                  else
                    io_seq
                      [db_call (pe_delete e) (\<lambda>d. snd (delete_all_promos d)),
                       db_call (pe_add e)
                         (\<lambda>d. add_promo d \<lparr>file_id = photo, caption = cap,
                                      created_at = isoformat (pe_now e)\<rparr>),
                       call (pe_reply e) (Reply (MsgPromoAdded (take 100 cap) (100 < length cap)))]))"

subsection \<open>Frame condition\<close>

text \<open>An action that never changes the session store.\<close>

definition keeps_sessions :: "'a io \<Rightarrow> bool" where
  "keeps_sessions m = (\<forall>w. user_sessions (snd (m w)) = user_sessions w)"

subsection \<open>Reading a keyboard\<close>

text \<open>The candidates a keyboard offers for audio and for video: the indices of its
  \<^verbatim>\<open>download_mp3\<close> buttons and of its \<^verbatim>\<open>download_mp4\<close> buttons, in the order of the
  keyboard.\<close>

fun audio_index :: "button \<Rightarrow> nat option" where
  "audio_index (Mp3Button t v i) = Some i"
| "audio_index b = None"

fun video_index :: "button \<Rightarrow> nat option" where
  "video_index (Mp4Button t v i) = Some i"
| "video_index b = None"

definition audio_actions :: "keyboard \<Rightarrow> nat list" where
  "audio_actions kb = List.map_filter audio_index (concat kb)"

definition video_actions :: "keyboard \<Rightarrow> nat list" where
  "video_actions kb = List.map_filter video_index (concat kb)"

subsection \<open>Example runs\<close>

text \<open>Concrete collaborators and states, at which the theorems of Part II are evaluated.\<close>

text \<open>A yt-dlp session whose search returns one playlist with a single entry, and one whose
  construction fails.\<close>

definition ex_ydl_one :: ydl_env where
  "ex_ydl_one =
     \<lparr>ydl_init = None,
      ydl_extract = (\<lambda>u. Inr (ResultDict (InfoDict [(''_type'', Some ''playlist'')]
                        (Some (Some [Some (InfoDict [(''id'', Some ''abc''), (''title'', Some ''Song'')] None)]))))),
      ydl_exit = None\<rparr>"

definition ex_ydl_down :: ydl_env where
  "ex_ydl_down =
     \<lparr>ydl_init = Some (Exception ''no network''),
      ydl_extract = (\<lambda>u. Inr ResultNone),
      ydl_exit = None\<rparr>"

definition ex_ydl_inner :: ydl_env where
  "ex_ydl_inner =
     \<lparr>ydl_init = None,
      ydl_extract = (\<lambda>u. Inl (Exception ''HTTP Error 429'')),
      ydl_exit = None\<rparr>"

definition ex_ydl_none :: ydl_env where
  "ex_ydl_none = \<lparr>ydl_init = None, ydl_extract = (\<lambda>u. Inr ResultNone), ydl_exit = None\<rparr>"

text \<open>A database whose only promo carries a creation time later than the clock of the
  examples, an administrator replying to a photo, and the environment of the command.\<close>

definition ex_db :: database where
  "ex_db =
     \<lparr>users = [], downloads = [], bot_settings = Map.empty,
      promos = [\<lparr>file_id = ''old-photo'', caption = ''Old banner'',
                 created_at = ''2099-01-01T00:00:00''\<rparr>]\<rparr>"

definition ex_db_users :: database where
  "ex_db_users =
     ex_db\<lparr>users :=
       [\<lparr>u_user_id = 1, u_username = Some ''ana'', u_first_name = Some ''Ana'', u_last_name = None,
         u_joined_at = ''2024-04-01 10:00:00'', u_last_active = ''2024-05-01 12:00:00'',
         u_is_active = 1\<rparr>,
        \<lparr>u_user_id = 2, u_username = None, u_first_name = Some ''Bo'', u_last_name = None,
         u_joined_at = ''2024-04-02 10:00:00'', u_last_active = ''2024-04-02 10:00:00'',
         u_is_active = 0\<rparr>]\<rparr>"

definition ex_world :: world where
  "ex_world = \<lparr>user_sessions = Map.empty, db = ex_db, trace = []\<rparr>"

definition ex_replied :: replied_message where
  "ex_replied = \<lparr>rm_photo = [''photo-small'', ''photo-large''], rm_caption = None\<rparr>"

definition ex_promo_env :: promo_env where
  "ex_promo_env =
     \<lparr>pe_reply = None,
      pe_now = \<lparr>dt_year = 2024, dt_month = 5, dt_day = 1, dt_hour = 12, dt_minute = 0,
                dt_second = 0, dt_microsecond = 0\<rparr>,
      pe_delete = None, pe_add = None\<rparr>"

text \<open>Searches: one that finds nothing, one that finds a song, one that finds two, with all
  messages delivered; and a state in which user 1 already has a session.\<close>

definition ex_search_none :: search_env where
  "ex_search_none =
     \<lparr>se_now = ''2024-05-01T12:00:00'', se_activity = None, se_reply = None,
      se_ydl = ex_ydl_none, se_edit = None\<rparr>"

definition ex_search_one :: search_env where
  "ex_search_one =
     \<lparr>se_now = ''2024-05-01T12:00:00'', se_activity = None, se_reply = None,
      se_ydl = ex_ydl_one, se_edit = None\<rparr>"

definition ex_ydl_two :: ydl_env where
  "ex_ydl_two =
     \<lparr>ydl_init = None,
      ydl_extract = (\<lambda>u. Inr (ResultDict (InfoDict [(''_type'', Some ''playlist'')]
                        (Some (Some [Some (InfoDict [(''id'', Some ''kJQP7kiw5Fk''),
                                                     (''title'', Some ''Despacito''),
                                                     (''uploader'', Some ''LuisFonsiVEVO'')] None),
                                     None,
                                     Some (InfoDict [(''id'', Some ''xyz''),
                                                     (''title'', Some ''Despacito (cover)''),
                                                     (''channel'', Some ''Covers'')] None)]))))),
      ydl_exit = None\<rparr>"

definition ex_search_two :: search_env where
  "ex_search_two =
     \<lparr>se_now = ''2024-05-01T12:05:00'', se_activity = None, se_reply = None,
      se_ydl = ex_ydl_two, se_edit = None\<rparr>"

definition ex_lyrics_env :: lyrics_env where
  "ex_lyrics_env =
     \<lparr>le_edit_searching = None, le_ydl = ex_ydl_one, le_edit_result = None, le_edit_error = None\<rparr>"

definition ex_world_session :: world where
  "ex_world_session =
     \<lparr>user_sessions = [1 \<mapsto> SearchSession [fallback_video] ''despacito''], db = ex_db, trace = []\<rparr>"

text \<open>Button presses: collaborators that all succeed, the same with a failing promo photo,
  one whose download fails, and one whose "complete" edit fails; a state in which user 1 holds
  a search session with two candidates and user 2 the entry of a link.\<close>

definition ex_download_env :: download_env where
  "ex_download_env =
     \<lparr>de_edit_reject = None, de_edit_processing = None,
      de_fetch = (\<lambda>u. Some ''temp/Despacito.m4a''), de_getsize = Inr 4200000,
      de_edit_uploading = None, de_open = None, de_send = None, de_add_download = None,
      de_now = ''2024-05-01 12:06:00'', de_exists = True, de_remove = None,
      de_edit_complete = None, de_promo_fetch = None, de_send_separator = None,
      de_send_photo = None, de_edit_failed = None\<rparr>"

definition ex_download_env_promo_fails :: download_env where
  "ex_download_env_promo_fails =
     ex_download_env\<lparr>de_send_photo := Some (Exception ''Wrong file identifier'')\<rparr>"

definition ex_download_env_fetch_fails :: download_env where
  "ex_download_env_fetch_fails = ex_download_env\<lparr>de_fetch := (\<lambda>u. None)\<rparr>"

definition ex_download_env_complete_fails :: download_env where
  "ex_download_env_complete_fails =
     ex_download_env\<lparr>de_edit_complete := Some (Exception ''Message to edit not found'')\<rparr>"

definition ex_video_a :: video where
  "ex_video_a = make_video ''kJQP7kiw5Fk'' ''Despacito'' (Some ''LuisFonsiVEVO'')"

definition ex_video_b :: video where
  "ex_video_b = make_video ''xyz'' ''Despacito (cover)'' (Some ''Covers'')"

definition ex_world_sessions :: world where
  "ex_world_sessions =
     \<lparr>user_sessions = [1 \<mapsto> SearchSession [ex_video_a, ex_video_b] ''despacito'',
                       2 \<mapsto> UrlSession ex_video_a ''https://youtu.be/kJQP7kiw5Fk''],
      db = ex_db, trace = []\<rparr>"

text \<open>A link whose metadata is found; the state after user 1 searched, and the state after
  the same user then sent the link.\<close>

definition ex_url_env :: url_env where
  "ex_url_env =
     \<lparr>ue_now = ''2024-05-01T12:07:00'', ue_activity = None, ue_reply = None,
      ue_info = (\<lambda>l. Some \<lparr>ui_id = ''kJQP7kiw5Fk'', ui_title = Some ''Despacito'',
                             ui_channel = Some ''LuisFonsiVEVO'', ui_duration = Some 282,
                             ui_thumbnail = ''https://i.ytimg.com/vi/kJQP7kiw5Fk/hq.jpg''\<rparr>),
      ue_edit = None, ue_edit_error = None\<rparr>"

definition ex_world_searched :: world where
  "ex_world_searched = snd (handle_search ex_search_two 1 ''despacito'' ex_world)"

definition ex_world_linked :: world where
  "ex_world_linked =
     snd (handle_youtube_url ex_url_env 1 ''https://youtu.be/kJQP7kiw5Fk'' ex_world_searched)"

text \<open>A forced channel, and a Telegram that knows user 5 as a member, user 6 as having left,
  and fails for everybody else.\<close>

definition ex_db_forced :: database where
  "ex_db_forced = set_setting ex_db ''forced_channel'' ''@musiclab''"

definition ex_get_chat_member :: "string \<Rightarrow> int \<Rightarrow> error + string" where
  "ex_get_chat_member ch u =
     (if u = 5 then Inr ''member'' else if u = 6 then Inr ''left''
      else Inl (Exception ''Chat not found''))"

section \<open>Part II: properties\<close>

subsection \<open>The database\<close>

lemma get_current_promo_single:
  "promos d = [r] \<Longrightarrow> get_current_promo d = Some r"
  by (simp add: get_current_promo_def)

text \<open>
  C10. For every state of the database, \<^verbatim>\<open>get_user_count\<close> returns a pair
  \<open>(total, active)\<close> with \<open>active \<le> total\<close>: the active rows are a subset of the rows.
\<close>

theorem get_user_count_active_le_total:
  "snd (get_user_count d) \<le> fst (get_user_count d)"
  by (simp add: get_user_count_def Let_def)

theorem get_user_count_active_le_total_witness:
  "get_user_count ex_db_users = (2, 1) \<and> snd (get_user_count ex_db_users) \<le> fst (get_user_count ex_db_users)"
  using get_user_count_active_le_total [of ex_db_users]
  by (simp add: get_user_count_def ex_db_users_def ex_db_def)

lemma replace_promo_table:
  "promos (add_promo (snd (delete_all_promos d)) p) = [p]"
  by (simp add: add_promo_def delete_all_promos_def)

subsection \<open>The handler combinators\<close>

lemmas io_defs = io_return_def io_raise_def io_lift_def io_bind_def io_then_def io_try_def
  emit_def call_def db_call_def store_session_def check_def

subsection \<open>Replacing the promo\<close>

lemma addpromo_command_accepts:
  assumes "is_admin admins u" "rm_photo rm \<noteq> []"
    and "cap = (if args \<noteq> [] then join_space args
                else (case rm_caption rm of None \<Rightarrow> [] | Some c \<Rightarrow> c))"
    and "cap \<noteq> []" "pe_delete e = None" "pe_add e = None"
  shows "promos (db (snd (addpromo_command e admins prim u (Some rm) args w)))
         = [\<lparr>file_id = last (rm_photo rm), caption = cap, created_at = isoformat (pe_now e)\<rparr>]"
  using assms
  by (auto simp add: addpromo_command_def Let_def io_defs add_promo_def delete_all_promos_def
      split: option.splits prod.splits sum.splits)

text \<open>Every clock reading is kept as text, so the command, the only writer of the table,
  leaves a table of text timestamps: the table is as it was, empty, or the one new row.\<close>

lemma kept_as_text_isoformat: "kept_as_text (isoformat t)"
  by (simp add: kept_as_text_def isoformat_def)

lemma addpromo_command_text_timestamps:
  assumes "text_timestamps (db w)"
  shows "text_timestamps (db (snd (addpromo_command e admins prim u reply args w)))"
  using assms
  by (auto simp add: addpromo_command_def Let_def io_defs add_promo_def delete_all_promos_def
      text_timestamps_def kept_as_text_isoformat split: option.splits)

text \<open>
  C7. Replacing the promo is \<^verbatim>\<open>delete_all_promos\<close> followed by \<^verbatim>\<open>add_promo\<close> of one row;
  \<^verbatim>\<open>get_current_promo\<close> afterwards returns exactly the inserted row, whatever rows the
  table held before and whatever their creation times. The first conjunct is the statement
  on the database, for an inserted creation time that SQLite keeps as text; the second is the
  statement for \<^verbatim>\<open>addpromo_command\<close>, whose creation time is the clock reading in ISO
  format, when an administrator replies to a photo with a caption and both statements
  execute.
\<close>

theorem replace_promo_then_current:
  "(kept_as_text (created_at p)
      \<longrightarrow> get_current_promo (add_promo (snd (delete_all_promos d)) p) = Some p)
   \<and> (is_admin admins u \<and> rm_photo rm \<noteq> []
        \<and> cap = (if args \<noteq> [] then join_space args
                  else (case rm_caption rm of None \<Rightarrow> [] | Some c \<Rightarrow> c))
        \<and> cap \<noteq> [] \<and> pe_delete e = None \<and> pe_add e = None
      \<longrightarrow> get_current_promo (db (snd (addpromo_command e admins prim u (Some rm) args w)))
          = Some \<lparr>file_id = last (rm_photo rm), caption = cap,
                  created_at = isoformat (pe_now e)\<rparr>)"
  using get_current_promo_single replace_promo_table addpromo_command_accepts by blast

text \<open>The example: the table holds a promo dated 2099, the command runs at a clock of 2024,
  and the new row is the current one.\<close>

theorem replace_promo_then_current_witness:
  "get_current_promo (add_promo (snd (delete_all_promos ex_db))
       \<lparr>file_id = ''photo-large'', caption = ''Join us'', created_at = ''2024-05-01T12:00:00''\<rparr>)
     = Some \<lparr>file_id = ''photo-large'', caption = ''Join us'', created_at = ''2024-05-01T12:00:00''\<rparr>
   \<and> kept_as_text ''2024-05-01T12:00:00''
   \<and> isoformat (pe_now ex_promo_env) = ''2024-05-01T12:00:00''
   \<and> is_admin [7176592290] 7176592290
   \<and> ''2024-05-01T12:00:00'' < created_at (hd (promos ex_db))
   \<and> get_current_promo (db (snd (addpromo_command ex_promo_env [7176592290] 7176592290 7176592290
          (Some ex_replied) [''Join'', ''us''] ex_world)))
     = Some \<lparr>file_id = ''photo-large'', caption = ''Join us'', created_at = ''2024-05-01T12:00:00''\<rparr>"
  using replace_promo_then_current [where d = ex_db
      and p = "\<lparr>file_id = ''photo-large'', caption = ''Join us'',
                 created_at = ''2024-05-01T12:00:00''\<rparr>"
      and admins = "[7176592290]" and u = 7176592290 and rm = ex_replied and cap = "''Join us''"
      and args = "[''Join'', ''us'']" and e = ex_promo_env and prim = 7176592290 and w = ex_world]
  by (simp add: is_admin_def ex_replied_def ex_promo_env_def ex_db_def kept_as_text_def
      isoformat_def zero_pad_def digits.simps)

subsection \<open>The access gate\<close>

text \<open>
  C4. The gate admits a user who is an administrator; it admits everybody when no forced
  channel is configured (the setting is absent or empty); when the membership check raises
  it admits the user; and when the check answers with a status, the gate admits the user
  exactly if the user is an administrator or the status is that of a member, an administrator or
  the creator of the channel.
\<close>

theorem access_gate_spec:
  "(u \<in> set admins \<longrightarrow> access_gate admins d gcm u)
   \<and> (get_setting d ''forced_channel'' = None \<or> get_setting d ''forced_channel'' = Some []
        \<longrightarrow> access_gate admins d gcm u)
   \<and> (get_setting d ''forced_channel'' = Some ch \<and> ch \<noteq> [] \<and> gcm ch u = Inl err
        \<longrightarrow> access_gate admins d gcm u)
   \<and> (get_setting d ''forced_channel'' = Some ch \<and> ch \<noteq> [] \<and> gcm ch u = Inr status
        \<longrightarrow> (access_gate admins d gcm u \<longleftrightarrow>
               u \<in> set admins \<or> status = ''member'' \<or> status = ''administrator''
               \<or> status = ''creator''))"
  by (auto simp add: access_gate_def is_admin_def check_channel_membership_def
      split: option.splits sum.splits)

theorem access_gate_spec_witness:
  "access_gate [7176592290] ex_db_forced ex_get_chat_member 7176592290
   \<and> access_gate [7176592290] ex_db ex_get_chat_member 6
   \<and> access_gate [7176592290] ex_db_forced ex_get_chat_member 7
   \<and> access_gate [7176592290] ex_db_forced ex_get_chat_member 5
   \<and> \<not> access_gate [7176592290] ex_db_forced ex_get_chat_member 6"
  using
    access_gate_spec [of 7176592290 "[7176592290]" ex_db_forced ex_get_chat_member
      "''@musiclab''" "Exception ''x''" "''member''"]
    access_gate_spec [of 6 "[7176592290]" ex_db ex_get_chat_member
      "''@musiclab''" "Exception ''x''" "''member''"]
    access_gate_spec [of 7 "[7176592290]" ex_db_forced ex_get_chat_member
      "''@musiclab''" "Exception ''Chat not found''" "''member''"]
    access_gate_spec [of 5 "[7176592290]" ex_db_forced ex_get_chat_member
      "''@musiclab''" "Exception ''x''" "''member''"]
    access_gate_spec [of 6 "[7176592290]" ex_db_forced ex_get_chat_member
      "''@musiclab''" "Exception ''x''" "''left''"]
  by (simp add: ex_db_forced_def ex_db_def set_setting_def get_setting_def ex_get_chat_member_def)

subsection \<open>The search wrapper\<close>

text \<open>The loop keeps the list shorter than a positive \<open>max_results\<close> until it returns.\<close>

lemma collect_entries_bound:
  "collect_entries m es videos = Inr vs \<Longrightarrow> 1 \<le> m \<Longrightarrow> int (length videos) < m
   \<Longrightarrow> int (length vs) \<le> m"
proof (induction es arbitrary: videos)
  case Nil
  then show ?case by simp
next
  case (Cons entry rest)
  show ?case
  proof (cases entry)
    case None
    with Cons show ?thesis by simp
  next
    case (Some e)
    show ?thesis
    proof (cases "dict_truthy e")
      case False
      with Some Cons show ?thesis by simp
    next
      case True
      from Cons.prems(1) Some True obtain r where r: "entry_video e = Inr r"
        by (auto split: sum.splits)
      define videos' where "videos' = (case r of None \<Rightarrow> videos | Some v \<Rightarrow> videos @ [v])"
      have len: "int (length videos') \<le> m"
        using Cons.prems(3) by (auto simp: videos'_def split: option.splits)
      show ?thesis
      proof (cases "m \<le> int (length videos')")
        case True
        with Cons.prems(1) Some \<open>dict_truthy e\<close> r have "vs = videos'"
          by (simp add: videos'_def Let_def)
        with len show ?thesis by simp
      next
        case False
        with Cons.prems(1) Some \<open>dict_truthy e\<close> r
        have "collect_entries m rest videos' = Inr vs"
          by (simp add: videos'_def Let_def)
        with Cons.IH[of videos'] Cons.prems(2) False show ?thesis by simp
      qed
    qed
  qed
qed

lemma process_results_bound:
  "process_results r m = Inr vs \<Longrightarrow> 1 \<le> m \<Longrightarrow> int (length vs) \<le> m"
  by (auto simp add: process_results_def Let_def simp del: collect_entries.simps
      split: ydl_result.splits if_splits option.splits dest: collect_entries_bound)

lemma search_videos_try_bound:
  "search_videos_try y q m = Inr vs \<Longrightarrow> 1 \<le> m \<Longrightarrow> int (length vs) \<le> m"
  by (auto simp add: search_videos_try_def split: option.splits sum.splits
      dest: process_results_bound)

lemma search_videos_returns: "\<exists>vs. search_videos y q m = Inr vs"
  by (simp add: search_videos_def split: sum.splits)

lemma search_videos_bound:
  "search_videos y q m = Inr vs \<Longrightarrow> 1 \<le> m \<Longrightarrow> int (length vs) \<le> m"
  by (auto simp add: search_videos_def split: sum.splits if_splits dest: search_videos_try_bound)

text \<open>
  C9, as the code has it. For every query and every \<open>max_results\<close>, \<^verbatim>\<open>search_videos\<close>
  returns a list and raises nothing. For \<open>max_results \<ge> 1\<close> the list has at most
  \<open>max_results\<close> items. When \<^verbatim>\<open>extract_info\<close> raises (the inner handler) the list is empty,
  whatever the query; when the body raises anywhere else (the outer handler) the list is the
  single fallback candidate with id \<^verbatim>\<open>kJQP7kiw5Fk\<close> if the lower-cased query contains
  \<^verbatim>\<open>test\<close> or \<^verbatim>\<open>despacito\<close>, and empty otherwise.
\<close>

theorem search_videos_never_raises_and_bounded:
  "\<exists>vs. search_videos y q m = Inr vs
     \<and> (1 \<le> m \<longrightarrow> int (length vs) \<le> m)
     \<and> (ydl_init y = None \<and> ydl_extract y (search_url m q) = Inl err \<and> ydl_exit y = None
          \<longrightarrow> vs = [])
     \<and> (search_videos_try y q m = Inl err'
          \<longrightarrow> vs = (if py_in ''test'' (lower q) \<or> py_in ''despacito'' (lower q)
                    then [fallback_video] else []))
     \<and> vid fallback_video = ''kJQP7kiw5Fk''"
proof -
  obtain vs where vs: "search_videos y q m = Inr vs"
    using search_videos_returns by blast
  have "1 \<le> m \<longrightarrow> int (length vs) \<le> m"
    using vs search_videos_bound by blast
  moreover have "ydl_init y = None \<and> ydl_extract y (search_url m q) = Inl err \<and> ydl_exit y = None
          \<longrightarrow> vs = []"
    using vs by (auto simp add: search_videos_def search_videos_try_def)
  moreover have "search_videos_try y q m = Inl err'
          \<longrightarrow> vs = (if py_in ''test'' (lower q) \<or> py_in ''despacito'' (lower q)
                    then [fallback_video] else [])"
    using vs by (auto simp add: search_videos_def)
  moreover have "vid fallback_video = ''kJQP7kiw5Fk''"
    by (simp add: fallback_video_def)
  ultimately show ?thesis using vs by blast
qed

theorem search_videos_never_raises_and_bounded_witness:
  "search_videos ex_ydl_one ''song'' 8 = Inr [make_video ''abc'' ''Song'' (Some ''Unknown Channel'')]
   \<and> (1::int) \<le> 8 \<and> int (length [make_video ''abc'' ''Song'' (Some ''Unknown Channel'')]) \<le> 8
   \<and> search_videos ex_ydl_inner ''test'' 8 = Inr []
   \<and> search_videos_try ex_ydl_down ''DESPACITO remix'' 8 = Inl (Exception ''no network'')
   \<and> search_videos ex_ydl_down ''DESPACITO remix'' 8 = Inr [fallback_video]
   \<and> search_videos ex_ydl_down ''another song'' 8 = Inr []"
  using
    search_videos_never_raises_and_bounded [of ex_ydl_one "''song''" 8]
    search_videos_never_raises_and_bounded [of ex_ydl_inner "''test''" 8 "Exception ''HTTP Error 429''"]
    search_videos_never_raises_and_bounded [of ex_ydl_down "''DESPACITO remix''" 8 _ "Exception ''no network''"]
    search_videos_never_raises_and_bounded [of ex_ydl_down "''another song''" 8 _ "Exception ''no network''"]
  by (simp add: search_videos_def search_videos_try_def process_results_def ex_ydl_one_def
      ex_ydl_down_def ex_ydl_inner_def dict_truthy_def entry_video_def dict_get_def Let_def
      lower_def lower_char_def)

text \<open>
  The bound does not hold for \<open>max_results = 0\<close>: the loop appends the first valid entry
  before it compares the length, and the fallback is one candidate whatever the limit.
\<close>

theorem search_videos_bound_counterexample:
  "search_videos ex_ydl_one ''song'' 0 = Inr [make_video ''abc'' ''Song'' (Some ''Unknown Channel'')]
   \<and> search_videos ex_ydl_down ''Test song'' 0 = Inr [fallback_video]
   \<and> \<not> int (length [fallback_video]) \<le> 0"
  by (simp add: search_videos_def search_videos_try_def process_results_def ex_ydl_one_def
      ex_ydl_down_def dict_truthy_def entry_video_def dict_get_def Let_def lower_def lower_char_def)

subsection \<open>Searching\<close>

lemma handle_search_sessions:
  "user_sessions (snd (handle_search e u q w)) = user_sessions w
   \<or> (\<exists>vs. search_videos (se_ydl e) q 8 = Inr vs \<and> vs \<noteq> []
         \<and> user_sessions (snd (handle_search e u q w)) = (user_sessions w)(u \<mapsto> SearchSession vs q))"
  by (auto simp add: handle_search_def io_defs split: option.splits sum.splits)

text \<open>
  C5. When the search returns no item, \<^verbatim>\<open>handle_search\<close> leaves the session store exactly
  as it was, for the user and for everybody else, and whatever the collaborators do; when the
  messages can be delivered it ends with the "no results" message.
\<close>

theorem handle_search_no_results:
  assumes "search_videos (se_ydl e) q 8 = Inr []"
  shows "user_sessions (snd (handle_search e u q w)) = user_sessions w
     \<and> (se_activity e = None \<and> se_reply e = None \<and> se_edit e = None \<longrightarrow>
          handle_search e u q w =
            (Inr (), w\<lparr>db := update_user_activity (db w) u (se_now e),
                       trace := trace w @ [Reply (MsgSearching (escape_markdown q)), Edit MsgNoResults]\<rparr>))"
  using assms by (auto simp add: handle_search_def io_defs split: option.splits sum.splits)

lemma map_filter_append:
  "List.map_filter f (xs @ ys) = List.map_filter f xs @ List.map_filter f ys"
  by (induction xs) (auto split: option.splits)

lemma audio_actions_rows:
  "List.map_filter audio_index (concat (concat (map (\<lambda>(i, video).
       [[Mp3Button (clean_title (title video)) (vid video) i],
        [Mp4Button (clean_title (title video)) (vid video) i]]) (enumerate n vs))))
   = [n..<n + length vs]"
proof (induction vs arbitrary: n)
  case Nil
  show ?case by simp
next
  case (Cons v vs)
  have "[n..<n + length (v # vs)] = n # [Suc n..<Suc n + length vs]"
    by (simp add: upt_conv_Cons del: upt_Suc)
  with Cons[of "Suc n"] show ?case by (simp del: upt_Suc)
qed

lemma video_actions_rows:
  "List.map_filter video_index (concat (concat (map (\<lambda>(i, video).
       [[Mp3Button (clean_title (title video)) (vid video) i],
        [Mp4Button (clean_title (title video)) (vid video) i]]) (enumerate n vs))))
   = [n..<n + length vs]"
proof (induction vs arbitrary: n)
  case Nil
  show ?case by simp
next
  case (Cons v vs)
  have "[n..<n + length (v # vs)] = n # [Suc n..<Suc n + length vs]"
    by (simp add: upt_conv_Cons del: upt_Suc)
  with Cons[of "Suc n"] show ?case by (simp del: upt_Suc)
qed

lemma search_keyboard_actions:
  "audio_actions (search_keyboard vs q) = [0..<length vs]"
  "video_actions (search_keyboard vs q) = [0..<length vs]"
  using audio_actions_rows[of 0 vs] video_actions_rows[of 0 vs]
  by (simp_all add: audio_actions_def video_actions_def search_keyboard_def map_filter_append)

lemma search_url_8: "search_url 8 q = ''ytsearch8:'' @ q"
  by (simp add: search_url_def str_int_def digits.simps)

lemma search_url_3: "search_url 3 q = ''ytsearch3:'' @ q"
  by (simp add: search_url_def str_int_def digits.simps)

lemma search_videos_local:
  "ex (search_url m q) = ydl_extract y (search_url m q)
   \<Longrightarrow> search_videos (y\<lparr>ydl_extract := ex\<rparr>) q m = search_videos y q m"
  by (simp add: search_videos_def search_videos_try_def split: option.splits sum.splits)

lemma handle_search_local:
  "ex (''ytsearch8:'' @ q) = ydl_extract (se_ydl e) (''ytsearch8:'' @ q)
   \<Longrightarrow> handle_search (e\<lparr>se_ydl := (se_ydl e)\<lparr>ydl_extract := ex\<rparr>\<rparr>) u q w = handle_search e u q w"
  using search_videos_local[of ex 8 q "se_ydl e"]
  by (simp add: handle_search_def search_url_8 cong: if_cong)

lemma handle_lyrics_sessions:
  "user_sessions (snd (handle_lyrics_to_download e u q w)) = user_sessions w
   \<or> (\<exists>vs. search_videos (le_ydl e) q 3 = Inr vs \<and> vs \<noteq> []
         \<and> user_sessions (snd (handle_lyrics_to_download e u q w)) = (user_sessions w)(u \<mapsto> SearchSession vs q))"
  by (auto simp add: handle_lyrics_to_download_def io_defs split: option.splits sum.splits)

lemma handle_lyrics_local:
  "ex (''ytsearch3:'' @ q) = ydl_extract (le_ydl e) (''ytsearch3:'' @ q)
   \<Longrightarrow> handle_lyrics_to_download (e\<lparr>le_ydl := (le_ydl e)\<lparr>ydl_extract := ex\<rparr>\<rparr>) u q w
       = handle_lyrics_to_download e u q w"
  using search_videos_local[of ex 3 q "le_ydl e"]
  by (simp add: handle_lyrics_to_download_def search_url_3 cong: if_cong)

lemma handle_search_renders:
  assumes "search_videos (se_ydl e) q 8 = Inr vs" "vs \<noteq> []"
    "se_activity e = None" "se_reply e = None" "se_edit e = None"
  shows "handle_search e u q w =
            (Inr (), w\<lparr>user_sessions := (user_sessions w)(u \<mapsto> SearchSession vs q),
                       db := update_user_activity (db w) u (se_now e),
                       trace := trace w @ [Reply (MsgSearching (escape_markdown q)),
                                           Edit (MsgSearchResults (escape_markdown q) (search_keyboard vs q))]\<rparr>)"
  using assms by (simp add: handle_search_def io_defs)

lemma handle_search_stores:
  "search_videos (se_ydl e) q 8 = Inr vs \<Longrightarrow> vs \<noteq> [] \<Longrightarrow> se_activity e = None
   \<Longrightarrow> se_reply e = None
   \<Longrightarrow> user_sessions (snd (handle_search e u q w)) = (user_sessions w)(u \<mapsto> SearchSession vs q)"
  by (auto simp add: handle_search_def io_defs split: option.splits)

lemma resolve_candidate_first:
  "sessions u = Some (SearchSession vs q) \<Longrightarrow> vs \<noteq> []
   \<Longrightarrow> resolve_candidate sessions u 0 = Resolved (vs ! 0)"
  by (simp add: resolve_candidate_def session_search_results_def py_index_def)

theorem handle_search_no_results_witness:
  "search_videos (se_ydl ex_search_none) ''zzzz'' 8 = Inr []
   \<and> user_sessions (snd (handle_search ex_search_none 1 ''zzzz'' ex_world_session)) 1
       = Some (SearchSession [fallback_video] ''despacito'')
   \<and> user_sessions (snd (handle_search ex_search_none 2 ''zzzz'' ex_world_session)) 2 = None
   \<and> trace (snd (handle_search ex_search_none 1 ''zzzz'' ex_world_session))
       = [Reply (MsgSearching ''zzzz''), Edit MsgNoResults]"
  using handle_search_no_results [of ex_search_none "''zzzz''" 1 ex_world_session]
    handle_search_no_results [of ex_search_none "''zzzz''" 2 ex_world_session]
  by (simp add: ex_search_none_def ex_ydl_none_def ex_world_session_def search_videos_def
      search_videos_try_def process_results_def escape_markdown_def escape_chars_def
      replace_char_def)

text \<open>
  C6. A fresh search either leaves the session store alone or stores, for the user, a list of
  at least one and at most 8 candidates, and its outcome depends on yt-dlp only through the
  URL \<^verbatim>\<open>ytsearch8:<query>\<close>; the search started from a lyrics result does the same with 3 and
  \<^verbatim>\<open>ytsearch3:<query>\<close>. Neither handler takes the limit as a parameter. When a fresh search
  finds \<open>N\<close> candidates (\<open>1 \<le> N \<le> 8\<close>) and the messages are delivered, the keyboard shown
  offers the candidates \<open>0, ..., N - 1\<close> once each for audio and once each for video.
\<close>

theorem search_limits_and_rendering:
  "(user_sessions (snd (handle_search e u q w)) = user_sessions w
      \<or> (\<exists>vs. vs \<noteq> [] \<and> length vs \<le> 8
            \<and> user_sessions (snd (handle_search e u q w)) = (user_sessions w)(u \<mapsto> SearchSession vs q)))
   \<and> (ex (''ytsearch8:'' @ q) = ydl_extract (se_ydl e) (''ytsearch8:'' @ q)
        \<longrightarrow> handle_search (e\<lparr>se_ydl := (se_ydl e)\<lparr>ydl_extract := ex\<rparr>\<rparr>) u q w = handle_search e u q w)
   \<and> (user_sessions (snd (handle_lyrics_to_download l u q w)) = user_sessions w
      \<or> (\<exists>vs. vs \<noteq> [] \<and> length vs \<le> 3
            \<and> user_sessions (snd (handle_lyrics_to_download l u q w))
                = (user_sessions w)(u \<mapsto> SearchSession vs q)))
   \<and> (ex (''ytsearch3:'' @ q) = ydl_extract (le_ydl l) (''ytsearch3:'' @ q)
        \<longrightarrow> handle_lyrics_to_download (l\<lparr>le_ydl := (le_ydl l)\<lparr>ydl_extract := ex\<rparr>\<rparr>) u q w
            = handle_lyrics_to_download l u q w)
   \<and> (search_videos (se_ydl e) q 8 = Inr found \<and> found \<noteq> []
        \<and> se_activity e = None \<and> se_reply e = None \<and> se_edit e = None
        \<longrightarrow> length found \<le> 8
            \<and> handle_search e u q w =
                (Inr (), w\<lparr>user_sessions := (user_sessions w)(u \<mapsto> SearchSession found q),
                           db := update_user_activity (db w) u (se_now e),
                           trace := trace w @ [Reply (MsgSearching (escape_markdown q)),
                                               Edit (MsgSearchResults (escape_markdown q)
                                                       (search_keyboard found q))]\<rparr>)
            \<and> audio_actions (search_keyboard found q) = [0..<length found]
            \<and> video_actions (search_keyboard found q) = [0..<length found])"
proof -
  have fresh: "user_sessions (snd (handle_search e u q w)) = user_sessions w
      \<or> (\<exists>vs. vs \<noteq> [] \<and> length vs \<le> 8
            \<and> user_sessions (snd (handle_search e u q w)) = (user_sessions w)(u \<mapsto> SearchSession vs q))"
    using handle_search_sessions[of e u q w] search_videos_bound[of "se_ydl e" q 8] by fastforce
  have lyr: "user_sessions (snd (handle_lyrics_to_download l u q w)) = user_sessions w
      \<or> (\<exists>vs. vs \<noteq> [] \<and> length vs \<le> 3
            \<and> user_sessions (snd (handle_lyrics_to_download l u q w))
                = (user_sessions w)(u \<mapsto> SearchSession vs q))"
    using handle_lyrics_sessions[of l u q w] search_videos_bound[of "le_ydl l" q 3] by fastforce
  have bound: "search_videos (se_ydl e) q 8 = Inr found \<longrightarrow> length found \<le> 8"
    using search_videos_bound[of "se_ydl e" q 8 found] by simp
  from fresh lyr bound show ?thesis
    using handle_search_local[of ex q e u w] handle_lyrics_local[of ex q l u w]
      handle_search_renders[of e q found u w] search_keyboard_actions[of found q]
    by blast
qed

lemma handle_youtube_url_stores:
  "ue_info e link = Some info \<Longrightarrow> ui_title info = Some t \<Longrightarrow> ui_channel info = Some c
   \<Longrightarrow> ue_activity e = None \<Longrightarrow> ue_reply e = None
   \<Longrightarrow> user_sessions (snd (handle_youtube_url e u link w)) u
       = Some (UrlSession \<lparr>vid = ui_id info, title = t, channel = Some c, url = link,
                            thumbnail = ui_thumbnail info\<rparr> link)"
  by (auto simp add: handle_youtube_url_def io_defs escape_channel_def split: option.splits)

text \<open>
  C2. Writing \<open>X\<close> for a user and reading the user's entry gives \<open>X\<close>; writing \<open>Y\<close> afterwards
  makes the read give \<open>Y\<close>, the store being the one before both writes with \<open>Y\<close> at the user
  (nothing of \<open>X\<close> is left). After a second search that found a non-empty list, the entry is
  that list and index 0 resolves to its first item, whatever the first search had stored; and
  after a link whose metadata is found, the entry is the one of the link.
\<close>

theorem session_store_overwrite:
  "user_sessions (snd (store_session u X w)) u = Some X
   \<and> user_sessions (snd (store_session u Y (snd (store_session u X w)))) u = Some Y
   \<and> user_sessions (snd (store_session u Y (snd (store_session u X w)))) = (user_sessions w)(u \<mapsto> Y)
   \<and> (X \<noteq> Y \<longrightarrow> user_sessions (snd (store_session u Y (snd (store_session u X w)))) u \<noteq> Some X)
   \<and> (search_videos (se_ydl e2) q2 8 = Inr list2 \<and> list2 \<noteq> []
        \<and> se_activity e2 = None \<and> se_reply e2 = None
      \<longrightarrow> user_sessions (snd (handle_search e2 u q2 (snd (handle_search e1 u q1 w)))) u
            = Some (SearchSession list2 q2)
          \<and> resolve_candidate
               (user_sessions (snd (handle_search e2 u q2 (snd (handle_search e1 u q1 w))))) u 0
            = Resolved (list2 ! 0)
          \<and> list2 ! 0 \<in> set list2)
   \<and> (ue_info e3 link = Some info \<and> ui_title info = Some t \<and> ui_channel info = Some c
        \<and> ue_activity e3 = None \<and> ue_reply e3 = None
      \<longrightarrow> user_sessions (snd (handle_youtube_url e3 u link (snd (handle_search e1 u q1 w)))) u
            = Some (UrlSession \<lparr>vid = ui_id info, title = t, channel = Some c, url = link,
                                 thumbnail = ui_thumbnail info\<rparr> link))"
proof -
  have store: "user_sessions (snd (store_session u X w)) u = Some X
   \<and> user_sessions (snd (store_session u Y (snd (store_session u X w)))) u = Some Y
   \<and> user_sessions (snd (store_session u Y (snd (store_session u X w)))) = (user_sessions w)(u \<mapsto> Y)
   \<and> (X \<noteq> Y \<longrightarrow> user_sessions (snd (store_session u Y (snd (store_session u X w)))) u \<noteq> Some X)"
    by (simp add: store_session_def)
  have "user_sessions (snd (handle_search e2 u q2 (snd (handle_search e1 u q1 w)))) u
            = Some (SearchSession list2 q2)
          \<and> resolve_candidate
               (user_sessions (snd (handle_search e2 u q2 (snd (handle_search e1 u q1 w))))) u 0
            = Resolved (list2 ! 0)
          \<and> list2 ! 0 \<in> set list2"
    if h: "search_videos (se_ydl e2) q2 8 = Inr list2" "list2 \<noteq> []"
      "se_activity e2 = None" "se_reply e2 = None"
  proof -
    have s: "user_sessions (snd (handle_search e2 u q2 (snd (handle_search e1 u q1 w)))) u
            = Some (SearchSession list2 q2)"
      using handle_search_stores[OF h, of u "snd (handle_search e1 u q1 w)"] by simp
    have "resolve_candidate
               (user_sessions (snd (handle_search e2 u q2 (snd (handle_search e1 u q1 w))))) u 0
            = Resolved (list2 ! 0)"
      using s h(2) by (rule resolve_candidate_first)
    with s h(2) show ?thesis by simp
  qed
  with store show ?thesis
    using handle_youtube_url_stores[of e3 link info t c u "snd (handle_search e1 u q1 w)"]
    by blast
qed

lemmas eval_defs = search_videos_def search_videos_try_def process_results_def dict_truthy_def
  entry_video_def dict_get_def make_video_def Let_def lower_def lower_char_def
  escape_markdown_def escape_chars_def replace_char_def clean_title_def search_url_def
  str_int_def digits.simps

theorem search_limits_and_rendering_witness:
  "search_videos (se_ydl ex_search_two) ''despacito'' 8
     = Inr [make_video ''kJQP7kiw5Fk'' ''Despacito'' (Some ''LuisFonsiVEVO''),
            make_video ''xyz'' ''Despacito (cover)'' (Some ''Covers'')]
   \<and> user_sessions (snd (handle_search ex_search_two 1 ''despacito'' ex_world)) 1
     = Some (SearchSession [make_video ''kJQP7kiw5Fk'' ''Despacito'' (Some ''LuisFonsiVEVO''),
                            make_video ''xyz'' ''Despacito (cover)'' (Some ''Covers'')] ''despacito'')
   \<and> trace (snd (handle_search ex_search_two 1 ''despacito'' ex_world))
     = [Reply (MsgSearching ''despacito''),
        Edit (MsgSearchResults ''despacito''
               [[Mp3Button ''Despacito'' ''kJQP7kiw5Fk'' 0], [Mp4Button ''Despacito'' ''kJQP7kiw5Fk'' 0],
                [Mp3Button ''Despacito (cover)'' ''xyz'' 1], [Mp4Button ''Despacito (cover)'' ''xyz'' 1],
                [GetLyricsButton ''despacito''], [SearchAgainButton]])]
   \<and> audio_actions (search_keyboard [make_video ''kJQP7kiw5Fk'' ''Despacito'' (Some ''LuisFonsiVEVO''),
                                      make_video ''xyz'' ''Despacito (cover)'' (Some ''Covers'')] ''despacito'') = [0, 1]
   \<and> video_actions (search_keyboard [make_video ''kJQP7kiw5Fk'' ''Despacito'' (Some ''LuisFonsiVEVO''),
                                      make_video ''xyz'' ''Despacito (cover)'' (Some ''Covers'')] ''despacito'') = [0, 1]
   \<and> user_sessions (snd (handle_lyrics_to_download ex_lyrics_env 1 ''Song'' ex_world)) 1
     = Some (SearchSession [make_video ''abc'' ''Song'' (Some ''Unknown Channel'')] ''Song'')"
  using search_limits_and_rendering [of ex_search_two 1 "''despacito''" ex_world
      "ydl_extract ex_ydl_two" ex_lyrics_env
      "[make_video ''kJQP7kiw5Fk'' ''Despacito'' (Some ''LuisFonsiVEVO''),
        make_video ''xyz'' ''Despacito (cover)'' (Some ''Covers'')]"]
  by (simp add: ex_search_two_def ex_ydl_two_def ex_world_def ex_lyrics_env_def ex_ydl_one_def
      eval_defs handle_search_def handle_lyrics_to_download_def io_defs search_keyboard_def
      audio_actions_def video_actions_def)

theorem session_store_overwrite_witness:
  "user_sessions (snd (store_session 1 (UrlSession fallback_video ''https://youtu.be/kJQP7kiw5Fk'')
       (snd (store_session 1 (SearchSession [fallback_video] ''despacito'') ex_world)))) 1
     = Some (UrlSession fallback_video ''https://youtu.be/kJQP7kiw5Fk'')
   \<and> search_videos (se_ydl ex_search_two) ''despacito'' 8
     = Inr [make_video ''kJQP7kiw5Fk'' ''Despacito'' (Some ''LuisFonsiVEVO''),
            make_video ''xyz'' ''Despacito (cover)'' (Some ''Covers'')]
   \<and> user_sessions (snd (handle_search ex_search_one 1 ''song'' ex_world)) 1
     = Some (SearchSession [make_video ''abc'' ''Song'' (Some ''Unknown Channel'')] ''song'')
   \<and> resolve_candidate
        (user_sessions (snd (handle_search ex_search_two 1 ''despacito''
                               (snd (handle_search ex_search_one 1 ''song'' ex_world))))) 1 0
     = Resolved (make_video ''kJQP7kiw5Fk'' ''Despacito'' (Some ''LuisFonsiVEVO''))
   \<and> user_sessions (snd (handle_youtube_url ex_url_env 1 ''https://youtu.be/kJQP7kiw5Fk''
                               (snd (handle_search ex_search_one 1 ''song'' ex_world)))) 1
     = Some (UrlSession \<lparr>vid = ''kJQP7kiw5Fk'', title = ''Despacito'', channel = Some ''LuisFonsiVEVO'',
                         url = ''https://youtu.be/kJQP7kiw5Fk'',
                         thumbnail = ''https://i.ytimg.com/vi/kJQP7kiw5Fk/hq.jpg''\<rparr>
               ''https://youtu.be/kJQP7kiw5Fk'')"
  using session_store_overwrite [of 1 "SearchSession [fallback_video] ''despacito''" ex_world
      "UrlSession fallback_video ''https://youtu.be/kJQP7kiw5Fk''" ex_search_two "''despacito''"
      "[make_video ''kJQP7kiw5Fk'' ''Despacito'' (Some ''LuisFonsiVEVO''),
        make_video ''xyz'' ''Despacito (cover)'' (Some ''Covers'')]" ex_search_one "''song''"
      ex_url_env "''https://youtu.be/kJQP7kiw5Fk''"
      "\<lparr>ui_id = ''kJQP7kiw5Fk'', ui_title = Some ''Despacito'',
        ui_channel = Some ''LuisFonsiVEVO'', ui_duration = Some 282,
        ui_thumbnail = ''https://i.ytimg.com/vi/kJQP7kiw5Fk/hq.jpg''\<rparr>"
      "''Despacito''" "''LuisFonsiVEVO''"]
  by (simp add: ex_search_two_def ex_ydl_two_def ex_search_one_def ex_world_def ex_ydl_one_def
      ex_url_env_def eval_defs handle_search_def io_defs store_session_def)

subsection \<open>Downloading\<close>

text \<open>No handler of a button press writes the session store: the frame condition is closed
  under the combinators, and the only action outside it is \<^const>\<open>store_session\<close>.\<close>

lemma keeps_sessions_basic:
  "keeps_sessions (io_return x)" "keeps_sessions (io_raise err)" "keeps_sessions (io_lift r)"
  "keeps_sessions (emit ev)" "keeps_sessions (call flt ev)" "keeps_sessions (check flt)"
  "keeps_sessions (db_call flt g)"
  by (auto simp add: keeps_sessions_def io_defs split: option.splits)

lemma keeps_sessions_bind:
  "keeps_sessions m \<Longrightarrow> (\<And>x. keeps_sessions (f x)) \<Longrightarrow> keeps_sessions (io_bind m f)"
  unfolding keeps_sessions_def io_bind_def
  by (auto split: prod.splits sum.splits) (metis snd_conv)+

lemma keeps_sessions_then:
  "keeps_sessions m \<Longrightarrow> keeps_sessions n \<Longrightarrow> keeps_sessions (io_then m n)"
  by (simp add: io_then_def keeps_sessions_bind)

lemma keeps_sessions_try:
  "keeps_sessions m \<Longrightarrow> (\<And>err. keeps_sessions (h err)) \<Longrightarrow> keeps_sessions (io_try m h)"
  unfolding keeps_sessions_def io_try_def
  by (auto split: prod.splits sum.splits) (metis snd_conv)+

lemma keeps_sessions_seq:
  "(\<And>m. m \<in> set ms \<Longrightarrow> keeps_sessions m) \<Longrightarrow> keeps_sessions (io_seq ms)"
  by (induction ms) (simp_all add: keeps_sessions_basic keeps_sessions_then)

lemmas keeps_sessions_intros = keeps_sessions_basic keeps_sessions_bind keeps_sessions_then
  keeps_sessions_try keeps_sessions_seq

lemma send_promotional_content_keeps: "keeps_sessions (send_promotional_content e u)"
  by (auto simp add: keeps_sessions_def send_promotional_content_def io_defs split: option.splits)

lemma process_mp3_download_keeps: "keeps_sessions (process_mp3_download e u v link)"
  unfolding process_mp3_download_def
  by (auto intro!: keeps_sessions_intros send_promotional_content_keeps split: option.splits)

lemma process_mp4_download_keeps: "keeps_sessions (process_mp4_download e u v link)"
  unfolding process_mp4_download_def
  by (auto intro!: keeps_sessions_intros split: option.splits)

lemma process_download_keeps: "keeps_sessions (process_download e f u v link)"
  by (cases f) (simp_all add: process_download_def process_mp3_download_keeps process_mp4_download_keeps)

lemma handle_download_keeps: "keeps_sessions (handle_download e f u i)"
proof -
  have "user_sessions (snd (handle_download e f u i w)) = user_sessions w" for w
  proof (cases "resolve_candidate (user_sessions w) u i")
    case (Resolved video)
    have "keeps_sessions (io_then
            (call (de_edit_processing e)
               (Edit (MsgProcessing f (escape_markdown (take 50 (title video))))))
            (io_try (process_download e f u video (url video))
               (\<lambda>err. io_then (emit (LogError (''Download error: '' @ error_str err)))
                               (call (de_edit_failed e)
                                  (Edit (MsgDownloadFailed (take 100 (error_str err))))))))"
      by (intro keeps_sessions_intros process_download_keeps)
    with Resolved show ?thesis by (simp add: handle_download_def keeps_sessions_def)
  qed (auto simp add: handle_download_def io_defs split: option.splits)
  then show ?thesis by (simp add: keeps_sessions_def)
qed

lemma send_promotional_content_result:
  "send_promotional_content e u w =
     (Inr (), w\<lparr>trace := trace w @
        (case de_promo_fetch e of
           Some err \<Rightarrow> [LogError (''Promo send error: '' @ error_str err)]
         | None \<Rightarrow>
             (case get_current_promo (db w) of
                None \<Rightarrow> []
              | Some p \<Rightarrow>
                  (case de_send_separator e of
                     Some err \<Rightarrow> [LogError (''Promo send error: '' @ error_str err)]
                   | None \<Rightarrow>
                       (case de_send_photo e of
                          Some err \<Rightarrow> [SendMessage u MsgSeparator,
                                       LogError (''Promo send error: '' @ error_str err)]
                        | None \<Rightarrow> [SendMessage u MsgSeparator,
                                    SendPhoto u (file_id p) (caption p)]))))\<rparr>)"
  by (auto simp add: send_promotional_content_def io_defs split: option.splits)

lemma get_current_promo_add_download:
  "get_current_promo (add_download d u t f eff now) = get_current_promo d"
  by (simp add: get_current_promo_def add_download_def)

lemma process_mp3_download_delivers:
  assumes "de_fetch e link = Some path" "path \<noteq> []" "de_getsize e = Inr sz"
    "channel video = Some c" "de_edit_uploading e = None" "de_open e = None" "de_send e = None"
    "de_add_download e = None" "de_exists e \<longrightarrow> de_remove e = None" "de_edit_complete e = None"
  shows "process_mp3_download e u video link w =
     emit (AutoDelete 30)
       (snd (send_promotional_content e u
          (w\<lparr>db := add_download (db w) u (title video) ''mp3'' None (de_now e),
             trace := trace w @
               [Fetch Mp3 link, Edit (MsgUploading Mp3),
                SendAudio u path
                  (MediaCaption Mp3 (escape_markdown (take 50 (title video))) (escape_markdown c) sz)
                  (title video) c]
               @ (if de_exists e then [RemoveFile path] else [])
               @ [Edit (MsgDownloadComplete Mp3)]\<rparr>)))"
  using assms
  by (simp add: process_mp3_download_def io_defs escape_channel_def
      send_promotional_content_result cong: option.case_cong)

text \<open>The record is written and the delivery stands once the file is sent and the insert
  succeeds, whatever the steps after them do: they only add events.\<close>

lemma process_mp3_download_recorded:
  assumes "de_fetch e link = Some path" "path \<noteq> []" "de_getsize e = Inr sz"
    "channel video = Some c" "de_edit_uploading e = None" "de_open e = None" "de_send e = None"
    "de_add_download e = None"
  shows "db (snd (process_mp3_download e u video link w))
           = add_download (db w) u (title video) ''mp3'' None (de_now e)"
    and "take (length (trace w) + 3) (trace (snd (process_mp3_download e u video link w)))
           = trace w @
               [Fetch Mp3 link, Edit (MsgUploading Mp3),
                SendAudio u path
                  (MediaCaption Mp3 (escape_markdown (take 50 (title video))) (escape_markdown c) sz)
                  (title video) c]"
  using assms
  by (auto simp add: process_mp3_download_def io_defs escape_channel_def
      send_promotional_content_result split: option.splits)

text \<open>When the removal of the file and the "complete" edit succeed too, the call returns
  normally and the events of \<^verbatim>\<open>send_promotional_content\<close> follow the delivery.\<close>

lemma process_mp3_download_promo:
  assumes "de_fetch e link = Some path" "path \<noteq> []" "de_getsize e = Inr sz"
    "channel video = Some c" "de_edit_uploading e = None" "de_open e = None" "de_send e = None"
    "de_add_download e = None" "de_exists e \<longrightarrow> de_remove e = None" "de_edit_complete e = None"
  shows "\<exists>promo.
      process_mp3_download e u video link w =
        (Inr (),
         w\<lparr>db := add_download (db w) u (title video) ''mp3'' None (de_now e),
           trace := trace w @
             [Fetch Mp3 link, Edit (MsgUploading Mp3),
              SendAudio u path
                (MediaCaption Mp3 (escape_markdown (take 50 (title video))) (escape_markdown c) sz)
                (title video) c]
             @ (if de_exists e then [RemoveFile path] else [])
             @ [Edit (MsgDownloadComplete Mp3)] @ promo @ [AutoDelete 30]\<rparr>)
    \<and> (de_promo_fetch e = None \<and> de_send_separator e = None \<and> de_send_photo e = None
           \<and> text_timestamps (db w)
         \<longrightarrow> promo = (case get_current_promo (db w) of
                        None \<Rightarrow> []
                      | Some p \<Rightarrow> [SendMessage u MsgSeparator, SendPhoto u (file_id p) (caption p)]))
    \<and> (\<forall>err. de_promo_fetch e = Some err
         \<longrightarrow> promo = [LogError (''Promo send error: '' @ error_str err)])
    \<and> (\<forall>err p. de_promo_fetch e = None \<and> get_current_promo (db w) = Some p
               \<and> de_send_separator e = Some err
         \<longrightarrow> promo = [LogError (''Promo send error: '' @ error_str err)])
    \<and> (\<forall>err p. de_promo_fetch e = None \<and> get_current_promo (db w) = Some p
               \<and> de_send_separator e = None \<and> de_send_photo e = Some err
         \<longrightarrow> promo = [SendMessage u MsgSeparator,
                      LogError (''Promo send error: '' @ error_str err)])"
proof -
  define w1 where "w1 =
    w\<lparr>db := add_download (db w) u (title video) ''mp3'' None (de_now e),
      trace := trace w @
        [Fetch Mp3 link, Edit (MsgUploading Mp3),
         SendAudio u path
           (MediaCaption Mp3 (escape_markdown (take 50 (title video))) (escape_markdown c) sz)
           (title video) c]
        @ (if de_exists e then [RemoveFile path] else [])
        @ [Edit (MsgDownloadComplete Mp3)]\<rparr>"
  define promo where "promo =
        (case de_promo_fetch e of
           Some err \<Rightarrow> [LogError (''Promo send error: '' @ error_str err)]
         | None \<Rightarrow>
             (case get_current_promo (db w) of
                None \<Rightarrow> []
              | Some p \<Rightarrow>
                  (case de_send_separator e of
                     Some err \<Rightarrow> [LogError (''Promo send error: '' @ error_str err)]
                   | None \<Rightarrow>
                       (case de_send_photo e of
                          Some err \<Rightarrow> [SendMessage u MsgSeparator,
                                       LogError (''Promo send error: '' @ error_str err)]
                        | None \<Rightarrow> [SendMessage u MsgSeparator,
                                    SendPhoto u (file_id p) (caption p)]))))"
  have promos: "get_current_promo (db w1) = get_current_promo (db w)"
    by (simp add: w1_def get_current_promo_add_download)
  have run: "process_mp3_download e u video link w
      = (Inr (), w1\<lparr>trace := trace w1 @ promo @ [AutoDelete 30]\<rparr>)"
    unfolding process_mp3_download_delivers[OF assms] w1_def[symmetric]
    by (simp add: send_promotional_content_result[of e u w1] promos promo_def emit_def
        cong: option.case_cong)
  have "w1\<lparr>trace := trace w1 @ promo @ [AutoDelete 30]\<rparr> =
         w\<lparr>db := add_download (db w) u (title video) ''mp3'' None (de_now e),
           trace := trace w @
             [Fetch Mp3 link, Edit (MsgUploading Mp3),
              SendAudio u path
                (MediaCaption Mp3 (escape_markdown (take 50 (title video))) (escape_markdown c) sz)
                (title video) c]
             @ (if de_exists e then [RemoveFile path] else [])
             @ [Edit (MsgDownloadComplete Mp3)] @ promo @ [AutoDelete 30]\<rparr>"
    by (simp add: w1_def)
  moreover have "de_promo_fetch e = None \<and> de_send_separator e = None \<and> de_send_photo e = None
           \<and> text_timestamps (db w)
         \<longrightarrow> promo = (case get_current_promo (db w) of
                        None \<Rightarrow> []
                      | Some p \<Rightarrow> [SendMessage u MsgSeparator, SendPhoto u (file_id p) (caption p)])"
    by (simp add: promo_def split: option.splits)
  moreover have "\<forall>err. de_promo_fetch e = Some err
         \<longrightarrow> promo = [LogError (''Promo send error: '' @ error_str err)]"
    by (simp add: promo_def)
  moreover have "\<forall>err p. de_promo_fetch e = None \<and> get_current_promo (db w) = Some p
               \<and> de_send_separator e = Some err
         \<longrightarrow> promo = [LogError (''Promo send error: '' @ error_str err)]"
    by (simp add: promo_def)
  moreover have "\<forall>err p. de_promo_fetch e = None \<and> get_current_promo (db w) = Some p
               \<and> de_send_separator e = None \<and> de_send_photo e = Some err
         \<longrightarrow> promo = [SendMessage u MsgSeparator,
                      LogError (''Promo send error: '' @ error_str err)]"
    by (simp add: promo_def)
  ultimately show ?thesis unfolding run by (intro exI[of _ promo]) simp
qed

text \<open>
  C3, as the code has it. Take a run of \<^verbatim>\<open>process_mp3_download\<close> in which the audio is
  delivered and recorded: the download gives a file, and sizing it, the "uploading" edit,
  opening and sending the file and the insert of the record succeed. Then, whatever the later
  steps do, exactly one record with format \<^verbatim>\<open>mp3\<close> for the user is appended, the trace goes
  on from the delivery, and the session store is as before. When the removal of the
  temporary file and the "complete" edit succeed as well, the call returns normally, whatever
  the promo does, and after the "complete" edit the trace continues with the events \<open>promo\<close>
  of \<^verbatim>\<open>send_promotional_content\<close> and ends. When no promo call fails and the creation times
  in the table are text, as \<^verbatim>\<open>addpromo_command\<close> leaves them, \<open>promo\<close> is the separator and
  one photo of the current promo if there is one, and empty if there is none. When the promo query, the separator or the photo fails,
  \<open>promo\<close> ends in a log entry and holds no message about a failure: the exception is not
  raised further, and the record and the delivery stay as they are.
\<close>

theorem mp3_delivery_record_and_promo:
  assumes "de_fetch e link = Some path" "path \<noteq> []" "de_getsize e = Inr sz"
    "channel video = Some c" "de_edit_uploading e = None" "de_open e = None" "de_send e = None"
    "de_add_download e = None"
  shows "user_sessions (snd (process_mp3_download e u video link w)) = user_sessions w
    \<and> downloads (db (snd (process_mp3_download e u video link w))) = downloads (db w) @
          [\<lparr>dl_user_id = u, dl_song_title = title video, dl_format = ''mp3'',
            dl_effect = None, dl_downloaded_at = de_now e\<rparr>]
    \<and> (\<exists>rest. trace (snd (process_mp3_download e u video link w)) = trace w @
          [Fetch Mp3 link, Edit (MsgUploading Mp3),
           SendAudio u path
             (MediaCaption Mp3 (escape_markdown (take 50 (title video))) (escape_markdown c) sz)
             (title video) c] @ rest)
    \<and> ((de_exists e \<longrightarrow> de_remove e = None) \<and> de_edit_complete e = None \<longrightarrow>
        (\<exists>promo.
            process_mp3_download e u video link w =
              (Inr (),
               w\<lparr>db := add_download (db w) u (title video) ''mp3'' None (de_now e),
                 trace := trace w @
                   [Fetch Mp3 link, Edit (MsgUploading Mp3),
                    SendAudio u path
                      (MediaCaption Mp3 (escape_markdown (take 50 (title video)))
                         (escape_markdown c) sz)
                      (title video) c]
                   @ (if de_exists e then [RemoveFile path] else [])
                   @ [Edit (MsgDownloadComplete Mp3)] @ promo @ [AutoDelete 30]\<rparr>)
          \<and> (de_promo_fetch e = None \<and> de_send_separator e = None \<and> de_send_photo e = None
               \<and> text_timestamps (db w)
               \<longrightarrow> promo = (case get_current_promo (db w) of
                              None \<Rightarrow> []
                            | Some p \<Rightarrow> [SendMessage u MsgSeparator,
                                         SendPhoto u (file_id p) (caption p)]))
          \<and> (\<forall>err. de_promo_fetch e = Some err
               \<longrightarrow> promo = [LogError (''Promo send error: '' @ error_str err)])
          \<and> (\<forall>err p. de_promo_fetch e = None \<and> get_current_promo (db w) = Some p
                     \<and> de_send_separator e = Some err
               \<longrightarrow> promo = [LogError (''Promo send error: '' @ error_str err)])
          \<and> (\<forall>err p. de_promo_fetch e = None \<and> get_current_promo (db w) = Some p
                     \<and> de_send_separator e = None \<and> de_send_photo e = Some err
               \<longrightarrow> promo = [SendMessage u MsgSeparator,
                            LogError (''Promo send error: '' @ error_str err)])))"
proof -
  have "user_sessions (snd (process_mp3_download e u video link w)) = user_sessions w"
    using process_mp3_download_keeps[of e u video link] by (simp add: keeps_sessions_def)
  moreover have "downloads (db (snd (process_mp3_download e u video link w))) = downloads (db w) @
          [\<lparr>dl_user_id = u, dl_song_title = title video, dl_format = ''mp3'',
            dl_effect = None, dl_downloaded_at = de_now e\<rparr>]"
    by (simp add: process_mp3_download_recorded(1)[OF assms] add_download_def)
  moreover have "\<exists>rest. trace (snd (process_mp3_download e u video link w)) = trace w @
          [Fetch Mp3 link, Edit (MsgUploading Mp3),
           SendAudio u path
             (MediaCaption Mp3 (escape_markdown (take 50 (title video))) (escape_markdown c) sz)
             (title video) c] @ rest"
  proof -
    have "trace (snd (process_mp3_download e u video link w))
        = take (length (trace w) + 3) (trace (snd (process_mp3_download e u video link w)))
          @ drop (length (trace w) + 3) (trace (snd (process_mp3_download e u video link w)))"
      by simp
    then have "trace (snd (process_mp3_download e u video link w)) = trace w @
          [Fetch Mp3 link, Edit (MsgUploading Mp3),
           SendAudio u path
             (MediaCaption Mp3 (escape_markdown (take 50 (title video))) (escape_markdown c) sz)
             (title video) c]
          @ drop (length (trace w) + 3) (trace (snd (process_mp3_download e u video link w)))"
      using process_mp3_download_recorded(2)[OF assms] by simp
    then show ?thesis by (rule exI)
  qed
  moreover have "\<exists>promo.
            process_mp3_download e u video link w =
              (Inr (),
               w\<lparr>db := add_download (db w) u (title video) ''mp3'' None (de_now e),
                 trace := trace w @
                   [Fetch Mp3 link, Edit (MsgUploading Mp3),
                    SendAudio u path
                      (MediaCaption Mp3 (escape_markdown (take 50 (title video)))
                         (escape_markdown c) sz)
                      (title video) c]
                   @ (if de_exists e then [RemoveFile path] else [])
                   @ [Edit (MsgDownloadComplete Mp3)] @ promo @ [AutoDelete 30]\<rparr>)
          \<and> (de_promo_fetch e = None \<and> de_send_separator e = None \<and> de_send_photo e = None
               \<and> text_timestamps (db w)
               \<longrightarrow> promo = (case get_current_promo (db w) of
                              None \<Rightarrow> []
                            | Some p \<Rightarrow> [SendMessage u MsgSeparator,
                                         SendPhoto u (file_id p) (caption p)]))
          \<and> (\<forall>err. de_promo_fetch e = Some err
               \<longrightarrow> promo = [LogError (''Promo send error: '' @ error_str err)])
          \<and> (\<forall>err p. de_promo_fetch e = None \<and> get_current_promo (db w) = Some p
                     \<and> de_send_separator e = Some err
               \<longrightarrow> promo = [LogError (''Promo send error: '' @ error_str err)])
          \<and> (\<forall>err p. de_promo_fetch e = None \<and> get_current_promo (db w) = Some p
                     \<and> de_send_separator e = None \<and> de_send_photo e = Some err
               \<longrightarrow> promo = [SendMessage u MsgSeparator,
                            LogError (''Promo send error: '' @ error_str err)])"
    if later: "de_exists e \<longrightarrow> de_remove e = None" "de_edit_complete e = None"
    using that by (rule process_mp3_download_promo[OF assms])
  ultimately show ?thesis by (intro conjI impI) simp_all
qed

lemmas run_defs = process_mp3_download_def process_mp4_download_def process_download_def
  handle_download_def handle_mp3_download_def resolve_candidate_def
  session_search_results_def py_index_def send_promotional_content_def escape_channel_def
  get_current_promo_def add_download_def make_video_def escape_markdown_def escape_chars_def
  replace_char_def

theorem mp3_delivery_record_and_promo_witness:
  "process_mp3_download ex_download_env 1 ex_video_a (url ex_video_a) ex_world_sessions
     = (Inr (),
        ex_world_sessions
          \<lparr>db := ex_db\<lparr>downloads :=
                  [\<lparr>dl_user_id = 1, dl_song_title = ''Despacito'', dl_format = ''mp3'',
                    dl_effect = None, dl_downloaded_at = ''2024-05-01 12:06:00''\<rparr>]\<rparr>,
           trace :=
             [Fetch Mp3 ''https://www.youtube.com/watch?v=kJQP7kiw5Fk'', Edit (MsgUploading Mp3),
              SendAudio 1 ''temp/Despacito.m4a''
                (MediaCaption Mp3 ''Despacito'' ''LuisFonsiVEVO'' 4200000) ''Despacito'' ''LuisFonsiVEVO'',
              RemoveFile ''temp/Despacito.m4a'', Edit (MsgDownloadComplete Mp3),
              SendMessage 1 MsgSeparator, SendPhoto 1 ''old-photo'' ''Old banner'',
              AutoDelete 30]\<rparr>)
   \<and> process_mp3_download ex_download_env_promo_fails 1 ex_video_a (url ex_video_a) ex_world_sessions
     = (Inr (),
        ex_world_sessions
          \<lparr>db := ex_db\<lparr>downloads :=
                  [\<lparr>dl_user_id = 1, dl_song_title = ''Despacito'', dl_format = ''mp3'',
                    dl_effect = None, dl_downloaded_at = ''2024-05-01 12:06:00''\<rparr>]\<rparr>,
           trace :=
             [Fetch Mp3 ''https://www.youtube.com/watch?v=kJQP7kiw5Fk'', Edit (MsgUploading Mp3),
              SendAudio 1 ''temp/Despacito.m4a''
                (MediaCaption Mp3 ''Despacito'' ''LuisFonsiVEVO'' 4200000) ''Despacito'' ''LuisFonsiVEVO'',
              RemoveFile ''temp/Despacito.m4a'', Edit (MsgDownloadComplete Mp3),
              SendMessage 1 MsgSeparator, LogError ''Promo send error: Wrong file identifier'',
              AutoDelete 30]\<rparr>)
   \<and> text_timestamps (db ex_world_sessions)
   \<and> downloads (db (snd (process_mp3_download ex_download_env_complete_fails 1 ex_video_a
                            (url ex_video_a) ex_world_sessions)))
     = [\<lparr>dl_user_id = 1, dl_song_title = ''Despacito'', dl_format = ''mp3'',
         dl_effect = None, dl_downloaded_at = ''2024-05-01 12:06:00''\<rparr>]"
  using
    mp3_delivery_record_and_promo [where e = ex_download_env and link = "url ex_video_a"
      and path = "''temp/Despacito.m4a''" and sz = 4200000 and video = ex_video_a
      and c = "''LuisFonsiVEVO''" and u = 1 and w = ex_world_sessions]
    mp3_delivery_record_and_promo [where e = ex_download_env_promo_fails
      and link = "url ex_video_a" and path = "''temp/Despacito.m4a''" and sz = 4200000
      and video = ex_video_a and c = "''LuisFonsiVEVO''" and u = 1 and w = ex_world_sessions]
    mp3_delivery_record_and_promo [where e = ex_download_env_complete_fails
      and link = "url ex_video_a" and path = "''temp/Despacito.m4a''" and sz = 4200000
      and video = ex_video_a and c = "''LuisFonsiVEVO''" and u = 1 and w = ex_world_sessions]
  by (simp add: ex_download_env_def ex_download_env_promo_fails_def
      ex_download_env_complete_fails_def ex_video_a_def ex_world_sessions_def ex_db_def
      run_defs io_defs text_timestamps_def kept_as_text_def)

text \<open>
  The delivery alone does not bring the promo. The table holds a promo, the audio is sent and
  recorded and the file removed, and the "complete" edit is refused: the exception ends the
  \<^verbatim>\<open>try\<close> block of \<^verbatim>\<open>process_mp3_download\<close> before \<^verbatim>\<open>send_promotional_content\<close> is
  called, so no promo event follows the audio, and \<^verbatim>\<open>handle_mp3_download\<close> answers with
  "download failed".
\<close>

theorem mp3_promo_skipped_when_complete_edit_fails:
  "get_current_promo (db ex_world_sessions)
     = Some \<lparr>file_id = ''old-photo'', caption = ''Old banner'', created_at = ''2099-01-01T00:00:00''\<rparr>
   \<and> process_mp3_download ex_download_env_complete_fails 1 ex_video_a (url ex_video_a) ex_world_sessions
     = (Inl (Exception ''MP3 processing failed: Message to edit not found''),
        ex_world_sessions
          \<lparr>db := ex_db\<lparr>downloads :=
                  [\<lparr>dl_user_id = 1, dl_song_title = ''Despacito'', dl_format = ''mp3'',
                    dl_effect = None, dl_downloaded_at = ''2024-05-01 12:06:00''\<rparr>]\<rparr>,
           trace :=
             [Fetch Mp3 ''https://www.youtube.com/watch?v=kJQP7kiw5Fk'', Edit (MsgUploading Mp3),
              SendAudio 1 ''temp/Despacito.m4a''
                (MediaCaption Mp3 ''Despacito'' ''LuisFonsiVEVO'' 4200000) ''Despacito'' ''LuisFonsiVEVO'',
              RemoveFile ''temp/Despacito.m4a'']\<rparr>)
   \<and> handle_mp3_download ex_download_env_complete_fails 1 0 ex_world_sessions
     = (Inr (),
        ex_world_sessions
          \<lparr>db := ex_db\<lparr>downloads :=
                  [\<lparr>dl_user_id = 1, dl_song_title = ''Despacito'', dl_format = ''mp3'',
                    dl_effect = None, dl_downloaded_at = ''2024-05-01 12:06:00''\<rparr>]\<rparr>,
           trace :=
             [Edit (MsgProcessing Mp3 ''Despacito''),
              Fetch Mp3 ''https://www.youtube.com/watch?v=kJQP7kiw5Fk'', Edit (MsgUploading Mp3),
              SendAudio 1 ''temp/Despacito.m4a''
                (MediaCaption Mp3 ''Despacito'' ''LuisFonsiVEVO'' 4200000) ''Despacito'' ''LuisFonsiVEVO'',
              RemoveFile ''temp/Despacito.m4a'',
              LogError ''Download error: MP3 processing failed: Message to edit not found'',
              Edit (MsgDownloadFailed ''MP3 processing failed: Message to edit not found'')]\<rparr>)"
  by (simp add: ex_download_env_complete_fails_def ex_download_env_def ex_video_a_def
      ex_video_b_def ex_world_sessions_def ex_db_def run_defs io_defs)

text \<open>
  C8. No run of a download handler changes the session store, so a selection resolves after
  the run to what it resolved to before it, for every index. When the selection is valid, the
  download returns no file and the messages are delivered, \<^verbatim>\<open>handle_mp3_download\<close> and
  \<^verbatim>\<open>handle_mp4_download\<close> each return normally after the "download failed" message that
  names the format, with nothing changed but the trace.
\<close>

theorem failed_fetch_keeps_session:
  "user_sessions (snd (handle_download e f u i w)) = user_sessions w
   \<and> resolve_candidate (user_sessions (snd (handle_download e f u i w))) u j
       = resolve_candidate (user_sessions w) u j
   \<and> (resolve_candidate (user_sessions w) u i = Resolved video
        \<and> (de_fetch e (url video) = None \<or> de_fetch e (url video) = Some [])
        \<and> de_edit_processing e = None \<and> de_edit_failed e = None
      \<longrightarrow> handle_mp3_download e u i w =
            (Inr (),
             w\<lparr>trace := trace w @
                 [Edit (MsgProcessing Mp3 (escape_markdown (take 50 (title video)))),
                  Fetch Mp3 (url video),
                  LogError ''Download error: MP3 processing failed: Failed to download audio'',
                  Edit (MsgDownloadFailed
                          (take 100 ''MP3 processing failed: Failed to download audio''))]\<rparr>))
   \<and> (resolve_candidate (user_sessions w) u i = Resolved video
        \<and> (de_fetch e (url video) = None \<or> de_fetch e (url video) = Some [])
        \<and> de_edit_processing e = None \<and> de_edit_failed e = None
      \<longrightarrow> handle_mp4_download e u i w =
            (Inr (),
             w\<lparr>trace := trace w @
                 [Edit (MsgProcessing Mp4 (escape_markdown (take 50 (title video)))),
                  Fetch Mp4 (url video),
                  LogError ''Download error: MP4 processing failed: Failed to download video'',
                  Edit (MsgDownloadFailed
                          (take 100 ''MP4 processing failed: Failed to download video''))]\<rparr>))"
proof -
  have keep: "user_sessions (snd (handle_download e f u i w)) = user_sessions w"
    using handle_download_keeps[of e f u i] by (simp add: keeps_sessions_def)
  have mp4: "handle_mp4_download e u i w =
            (Inr (),
             w\<lparr>trace := trace w @
                 [Edit (MsgProcessing Mp4 (escape_markdown (take 50 (title video)))),
                  Fetch Mp4 (url video),
                  LogError ''Download error: MP4 processing failed: Failed to download video'',
                  Edit (MsgDownloadFailed
                          (take 100 ''MP4 processing failed: Failed to download video''))]\<rparr>)"
    if "resolve_candidate (user_sessions w) u i = Resolved video"
      "de_fetch e (url video) = None \<or> de_fetch e (url video) = Some []"
      "de_edit_processing e = None" "de_edit_failed e = None"
    using that
    by (auto simp add: handle_mp4_download_def handle_download_def process_download_def
        process_mp4_download_def io_defs)
  have "handle_mp3_download e u i w =
            (Inr (),
             w\<lparr>trace := trace w @
                 [Edit (MsgProcessing Mp3 (escape_markdown (take 50 (title video)))),
                  Fetch Mp3 (url video),
                  LogError ''Download error: MP3 processing failed: Failed to download audio'',
                  Edit (MsgDownloadFailed
                          (take 100 ''MP3 processing failed: Failed to download audio''))]\<rparr>)"
    if "resolve_candidate (user_sessions w) u i = Resolved video"
      "de_fetch e (url video) = None \<or> de_fetch e (url video) = Some []"
      "de_edit_processing e = None" "de_edit_failed e = None"
    using that
    by (auto simp add: handle_mp3_download_def handle_download_def process_download_def
        process_mp3_download_def io_defs)
  with keep mp4 show ?thesis by simp
qed

theorem failed_fetch_keeps_session_witness:
  "resolve_candidate (user_sessions ex_world_sessions) 1 1 = Resolved ex_video_b
   \<and> de_fetch ex_download_env_fetch_fails (url ex_video_b) = None
   \<and> handle_mp3_download ex_download_env_fetch_fails 1 1 ex_world_sessions =
        (Inr (),
         ex_world_sessions\<lparr>trace :=
            [Edit (MsgProcessing Mp3 (escape_markdown ''Despacito (cover)'')),
             Fetch Mp3 ''https://www.youtube.com/watch?v=xyz'',
             LogError ''Download error: MP3 processing failed: Failed to download audio'',
             Edit (MsgDownloadFailed ''MP3 processing failed: Failed to download audio'')]\<rparr>)
   \<and> handle_mp4_download ex_download_env_fetch_fails 1 1 ex_world_sessions =
        (Inr (),
         ex_world_sessions\<lparr>trace :=
            [Edit (MsgProcessing Mp4 (escape_markdown ''Despacito (cover)'')),
             Fetch Mp4 ''https://www.youtube.com/watch?v=xyz'',
             LogError ''Download error: MP4 processing failed: Failed to download video'',
             Edit (MsgDownloadFailed ''MP4 processing failed: Failed to download video'')]\<rparr>)
   \<and> resolve_candidate
        (user_sessions (snd (handle_mp3_download ex_download_env_fetch_fails 1 1 ex_world_sessions))) 1 1
       = Resolved ex_video_b
   \<and> resolve_candidate
        (user_sessions (snd (handle_mp4_download ex_download_env_fetch_fails 1 1 ex_world_sessions))) 1 1
       = Resolved ex_video_b"
  using failed_fetch_keeps_session [of ex_download_env_fetch_fails Mp3 1 1 ex_world_sessions 1 ex_video_b]
    failed_fetch_keeps_session [of ex_download_env_fetch_fails Mp4 1 1 ex_world_sessions 1 ex_video_b]
  by (simp add: ex_download_env_fetch_fails_def ex_download_env_def ex_world_sessions_def
      ex_video_b_def ex_video_a_def handle_mp3_download_def handle_mp4_download_def
      resolve_candidate_def session_search_results_def py_index_def make_video_def)

lemma ex_world_searched_sessions:
  "user_sessions ex_world_searched = [1 \<mapsto> SearchSession [ex_video_a, ex_video_b] ''despacito'']"
  by (simp add: ex_world_searched_def ex_search_two_def ex_ydl_two_def ex_world_def
      ex_video_a_def ex_video_b_def eval_defs handle_search_def io_defs)

text \<open>
  C1, as the code has it. When the user has no entry, the two download handlers answer
  "session expired"; when the entry is a candidate list and the index is at or beyond its
  length, they answer "invalid selection"; when the entry is the one of a link, reading its
  key \<^verbatim>\<open>search_results\<close> raises \<^verbatim>\<open>KeyError\<close>, which leaves the handler with no message
  of its own. In all three cases the state is unchanged but for the one rejection message:
  no download is started and nothing is recorded.
\<close>

theorem selection_rejections:
  "(user_sessions w u = None
      \<longrightarrow> handle_download e f u i w =
            (case de_edit_reject e of
               None \<Rightarrow> (Inr (), w\<lparr>trace := trace w @ [Edit MsgSessionExpired]\<rparr>)
             | Some err \<Rightarrow> (Inl err, w)))
   \<and> (user_sessions w u = Some (SearchSession vs q) \<and> int (length vs) \<le> i
      \<longrightarrow> handle_download e f u i w =
            (case de_edit_reject e of
               None \<Rightarrow> (Inr (), w\<lparr>trace := trace w @ [Edit MsgInvalidSelection]\<rparr>)
             | Some err \<Rightarrow> (Inl err, w)))
   \<and> (user_sessions w u = Some (UrlSession v l)
      \<longrightarrow> handle_download e f u i w = (Inl (KeyError ''search_results''), w))
   \<and> handle_mp3_download e = handle_download e Mp3
   \<and> handle_mp4_download e = handle_download e Mp4"
  by (auto simp add: handle_download_def resolve_candidate_def session_search_results_def io_defs
      handle_mp3_download_def handle_mp4_download_def split: option.splits)


text \<open>User 7 has no entry; user 1 has two candidates and presses index 2; after sending a
  link, the same user presses a button of the old list.\<close>

theorem selection_rejections_witness:
  "handle_mp3_download ex_download_env 7 0 ex_world_searched
     = (Inr (), ex_world_searched\<lparr>trace := trace ex_world_searched @ [Edit MsgSessionExpired]\<rparr>)
   \<and> handle_mp3_download ex_download_env 1 2 ex_world_searched
     = (Inr (), ex_world_searched\<lparr>trace := trace ex_world_searched @ [Edit MsgInvalidSelection]\<rparr>)
   \<and> handle_mp4_download ex_download_env 1 2 ex_world_searched
     = (Inr (), ex_world_searched\<lparr>trace := trace ex_world_searched @ [Edit MsgInvalidSelection]\<rparr>)
   \<and> handle_mp3_download ex_download_env 1 0 ex_world_linked
     = (Inl (KeyError ''search_results''), ex_world_linked)"
proof -
  have s: "user_sessions ex_world_searched 7 = None"
    "user_sessions ex_world_searched 1 = Some (SearchSession [ex_video_a, ex_video_b] ''despacito'')"
    by (simp_all add: ex_world_searched_sessions)
  have l: "user_sessions ex_world_linked 1
     = Some (UrlSession \<lparr>vid = ''kJQP7kiw5Fk'', title = ''Despacito'', channel = Some ''LuisFonsiVEVO'',
                         url = ''https://youtu.be/kJQP7kiw5Fk'',
                         thumbnail = ''https://i.ytimg.com/vi/kJQP7kiw5Fk/hq.jpg''\<rparr>
               ''https://youtu.be/kJQP7kiw5Fk'')"
    by (simp add: ex_world_linked_def ex_url_env_def handle_youtube_url_def io_defs
        escape_channel_def)
  have r: "de_edit_reject ex_download_env = None"
    by (simp add: ex_download_env_def)
  show ?thesis
    using selection_rejections [where w = ex_world_searched and u = 7 and e = ex_download_env
        and f = Mp3 and i = 0]
      selection_rejections [where w = ex_world_searched and u = 1 and e = ex_download_env
        and f = Mp3 and i = 2 and vs = "[ex_video_a, ex_video_b]" and q = "''despacito''"]
      selection_rejections [where w = ex_world_searched and u = 1 and e = ex_download_env
        and f = Mp4 and i = 2 and vs = "[ex_video_a, ex_video_b]" and q = "''despacito''"]
      selection_rejections [where w = ex_world_linked and u = 1 and e = ex_download_env
        and f = Mp3 and i = 0
        and v = "\<lparr>vid = ''kJQP7kiw5Fk'', title = ''Despacito'', channel = Some ''LuisFonsiVEVO'',
                   url = ''https://youtu.be/kJQP7kiw5Fk'',
                   thumbnail = ''https://i.ytimg.com/vi/kJQP7kiw5Fk/hq.jpg''\<rparr>"
        and l = "''https://youtu.be/kJQP7kiw5Fk''"]
      s l r
    by simp
qed


text \<open>
  The entry of a link is not answered with "invalid selection": after a search and a link by
  the same user, a press on a button of the result list raises in both handlers, and the
  trace holds no such message.
\<close>

theorem stored_link_entry_not_rejected:
  "user_sessions ex_world_linked 1
     = Some (UrlSession \<lparr>vid = ''kJQP7kiw5Fk'', title = ''Despacito'', channel = Some ''LuisFonsiVEVO'',
                         url = ''https://youtu.be/kJQP7kiw5Fk'',
                         thumbnail = ''https://i.ytimg.com/vi/kJQP7kiw5Fk/hq.jpg''\<rparr>
               ''https://youtu.be/kJQP7kiw5Fk'')
   \<and> handle_mp3_download ex_download_env 1 0 ex_world_linked
     = (Inl (KeyError ''search_results''), ex_world_linked)
   \<and> handle_mp4_download ex_download_env 1 0 ex_world_linked
     = (Inl (KeyError ''search_results''), ex_world_linked)
   \<and> Edit MsgInvalidSelection
       \<notin> set (trace (snd (handle_mp3_download ex_download_env 1 0 ex_world_linked)))"
proof -
  have linked: "user_sessions ex_world_linked 1
     = Some (UrlSession \<lparr>vid = ''kJQP7kiw5Fk'', title = ''Despacito'', channel = Some ''LuisFonsiVEVO'',
                         url = ''https://youtu.be/kJQP7kiw5Fk'',
                         thumbnail = ''https://i.ytimg.com/vi/kJQP7kiw5Fk/hq.jpg''\<rparr>
               ''https://youtu.be/kJQP7kiw5Fk'')"
    by (simp add: ex_world_linked_def ex_url_env_def handle_youtube_url_def io_defs
        escape_channel_def)
  have a: "handle_mp3_download ex_download_env 1 0 ex_world_linked
     = (Inl (KeyError ''search_results''), ex_world_linked)"
    "handle_mp4_download ex_download_env 1 0 ex_world_linked
     = (Inl (KeyError ''search_results''), ex_world_linked)"
    using linked
    by (simp_all add: handle_mp3_download_def handle_mp4_download_def handle_download_def
        resolve_candidate_def session_search_results_def io_raise_def)
  have t: "trace ex_world_linked
     = [Reply (MsgSearching ''despacito''),
        Edit (MsgSearchResults ''despacito''
               (search_keyboard [ex_video_a, ex_video_b] ''despacito'')),
        Reply MsgUrlProcessing,
        Edit (MsgUrlConfirm ''Despacito'' ''LuisFonsiVEVO'' (Some 282)
               [[UrlMp3Button ''kJQP7kiw5Fk''], [UrlMp4Button ''kJQP7kiw5Fk''], [CancelButton]])]"
    by (simp add: ex_world_linked_def ex_url_env_def handle_youtube_url_def io_defs
        escape_channel_def ex_world_searched_def ex_search_two_def ex_ydl_two_def ex_world_def
        ex_video_a_def ex_video_b_def eval_defs handle_search_def)
  from linked a t show ?thesis by simp
qed

text \<open>
  A negative index is not rejected either: the only test is
  \<^verbatim>\<open>result_index >= len(videos)\<close>, so with two candidates stored index \<open>-1\<close> selects the
  last one, downloads and records it, and index \<open>-3\<close> raises \<^verbatim>\<open>IndexError\<close>.
\<close>

lemma negative_index_counts_from_end:
  "resolve_candidate (user_sessions ex_world_searched) 1 (- 1) = Resolved ex_video_b
   \<and> fst (handle_mp3_download ex_download_env 1 (- 1) ex_world_searched) = Inr ()
   \<and> Fetch Mp3 (url ex_video_b)
       \<in> set (trace (snd (handle_mp3_download ex_download_env 1 (- 1) ex_world_searched)))
   \<and> downloads (db (snd (handle_mp3_download ex_download_env 1 (- 1) ex_world_searched)))
     = [\<lparr>dl_user_id = 1, dl_song_title = ''Despacito (cover)'', dl_format = ''mp3'',
         dl_effect = None, dl_downloaded_at = ''2024-05-01 12:06:00''\<rparr>]
   \<and> handle_mp3_download ex_download_env 1 (- 3) ex_world_searched
     = (Inl IndexError, ex_world_searched)"
proof -
  have b: "resolve_candidate (user_sessions ex_world_searched) 1 (- 1) = Resolved ex_video_b"
    "handle_mp3_download ex_download_env 1 (- 3) ex_world_searched
     = (Inl IndexError, ex_world_searched)"
    by (simp_all add: ex_world_searched_sessions handle_mp3_download_def handle_download_def
        resolve_candidate_def session_search_results_def py_index_def io_raise_def)
  have db: "db ex_world_searched = update_user_activity ex_db 1 ''2024-05-01T12:05:00''"
    by (simp add: ex_world_searched_def ex_search_two_def ex_ydl_two_def ex_world_def
      eval_defs handle_search_def io_defs)
  have c: "fst (handle_mp3_download ex_download_env 1 (- 1) ex_world_searched) = Inr ()
   \<and> Fetch Mp3 (url ex_video_b)
       \<in> set (trace (snd (handle_mp3_download ex_download_env 1 (- 1) ex_world_searched)))
   \<and> downloads (db (snd (handle_mp3_download ex_download_env 1 (- 1) ex_world_searched)))
     = [\<lparr>dl_user_id = 1, dl_song_title = ''Despacito (cover)'', dl_format = ''mp3'',
         dl_effect = None, dl_downloaded_at = ''2024-05-01 12:06:00''\<rparr>]"
    using b(1)
    by (simp add: handle_mp3_download_def handle_download_def process_download_def
        process_mp3_download_def send_promotional_content_def escape_channel_def io_defs
        ex_download_env_def ex_video_b_def make_video_def db update_user_activity_def
        ex_db_def add_download_def get_current_promo_def)
  from b c show ?thesis by simp
qed

end
